theory Spec2Isabelle
  imports Main "HOL-Library.Sublist"
begin

section \<open>Output sink\<close>

text \<open>
  The reporters write through three calls: \<^verbatim>\<open>process.stdout.write(s)\<close> (no line
  terminator), \<^verbatim>\<open>console.log(s)\<close> (standard output, terminated by a line break) and
  \<^verbatim>\<open>console.error(s)\<close> (standard error). The sink is the list of these calls in the
  order in which the handlers make them.
\<close>

datatype out = StdoutWrite string | ConsoleLog string | ConsoleError string

text \<open>
  A thrown exception is the left value of a handler's result. It ends the dispatch; the
  result then carries the exception only.
\<close>

datatype JsError = Error string | TypeError string

section \<open>The rendering primitive\<close>

text \<open>
  \<^verbatim>\<open>MarkdownOrChalk\<close> is an external collaborator; the reporters read \<^verbatim>\<open>header\<close>,
  \<^verbatim>\<open>indent\<close>, \<^verbatim>\<open>logSymbols.success\<close>, \<^verbatim>\<open>logSymbols.error\<close> and the optional
  \<^verbatim>\<open>chalk\<close> colorizer (absent in markdown mode). It is a parameter of the model.
\<close>

record Chalk =
  gray :: "string \<Rightarrow> string"
  red :: "string \<Rightarrow> string"

record LogSymbols =
  success :: string
  error :: string

record MarkdownOrChalk =
  header :: "string \<Rightarrow> nat \<Rightarrow> string"
  indent :: "string \<Rightarrow> nat \<Rightarrow> string"
  logSymbols :: LogSymbols
  chalk :: "Chalk option"

section \<open>Diagnostics\<close>

datatype DiagnosticText = Scalar string | Array "string list"

datatype Diagnostic = Diagnostic
  (diag_text: DiagnosticText)
  (diag_code: "string option")
  (diag_category: "string option")
  (diag_related: "Diagnostic list option")

text \<open>\<^verbatim>\<open>Array.prototype.join\<close> on an array of strings.\<close>

fun join :: "string \<Rightarrow> string list \<Rightarrow> string" where
  "join sep [] = []"
| "join sep [x] = x"
| "join sep (x # y # ys) = x @ sep @ join sep (y # ys)"

text \<open>
  \<^verbatim>\<open>_formatDiagnostic\<close>. The tests \<^verbatim>\<open>diagnostic.code ? .. : ''\<close> and
  \<^verbatim>\<open>diagnostic.category ? .. : ''\<close> are truthiness tests: an absent property and the
  empty string both give the empty suffix.
\<close>

fun formatDiagnostic :: "Diagnostic \<Rightarrow> string" where
  "formatDiagnostic (Diagnostic dtext dcode dcategory drelated) =
     (let text = (case dtext of Array ls \<Rightarrow> ls | Scalar s \<Rightarrow> [s]);
          code = (case dcode of
                    Some c \<Rightarrow> if c \<noteq> [] then '' ('' @ c @ '')'' else []
                  | None \<Rightarrow> []);
          category = (case dcategory of
                        Some c \<Rightarrow> if c \<noteq> [] then '' ['' @ c @ '']'' else []
                      | None \<Rightarrow> []);
          lines = map (\<lambda>(index, line). line @ (if index = (0::nat) then code else []))
                      (enumerate 0 text);
          output = join ''\<newline>'' lines @ category
      in (case drelated of
            Some rel \<Rightarrow>
              if length rel > 0
              then output @ ''\<newline>'' @
                   join ''\<newline>'' (map (\<lambda>related. ''  '' @ formatDiagnostic related) rel)
              else output
          | None \<Rightarrow> output))"

section \<open>Events\<close>

text \<open>
  A reporter event is the pair of its kind (a string) and its payload. The payload is an
  object; each property the handlers read is optional here, as a property of a JavaScript
  object is. \<^verbatim>\<open>result.describe\<close> and \<^verbatim>\<open>result.test\<close> are objects of which only
  \<^verbatim>\<open>name\<close> is read.
\<close>

record ResultMember =
  member_name :: "string option"

record Result =
  describe :: "ResultMember option"
  test :: "ResultMember option"

record Payload =
  diagnostics :: "Diagnostic list option"
  compilerVersion :: "string option"
  result :: "Result option"

type_synonym ReporterEvent = "string \<times> Payload"

section \<open>The base reporter\<close>

record TstycheBaseReporter =
  format :: MarkdownOrChalk
  currentCompilerVersion :: "string option"
  lastShownCompilerVersion :: "string option"
  console :: "out list"

definition console_log ::
  "string \<Rightarrow> 'a TstycheBaseReporter_scheme \<Rightarrow> 'a TstycheBaseReporter_scheme" where
  "console_log s r = r\<lparr>console := console r @ [ConsoleLog s]\<rparr>"

definition console_error ::
  "string \<Rightarrow> 'a TstycheBaseReporter_scheme \<Rightarrow> 'a TstycheBaseReporter_scheme" where
  "console_error s r = r\<lparr>console := console r @ [ConsoleError s]\<rparr>"

definition stdout_write ::
  "string \<Rightarrow> 'a TstycheBaseReporter_scheme \<Rightarrow> 'a TstycheBaseReporter_scheme" where
  "stdout_write s r = r\<lparr>console := console r @ [StdoutWrite s]\<rparr>"

text \<open>The loop of \<^verbatim>\<open>_printErrors\<close> over \<^verbatim>\<open>payload.diagnostics\<close>.\<close>

fun printErrors_loop ::
  "Diagnostic list \<Rightarrow> 'a TstycheBaseReporter_scheme \<Rightarrow> 'a TstycheBaseReporter_scheme" where
  "printErrors_loop [] r = r"
| "printErrors_loop (diagnostic # rest) r =
     (let message = formatDiagnostic diagnostic;
          errorLine = ''Error: '' @ message
      in printErrors_loop rest
           (console_error
              (case chalk (format r) of Some c \<Rightarrow> red c errorLine | None \<Rightarrow> errorLine) r))"

text \<open>Iterating over an absent \<^verbatim>\<open>diagnostics\<close> property throws a TypeError.\<close>

definition printErrors ::
  "'a TstycheBaseReporter_scheme \<Rightarrow> Payload \<Rightarrow> JsError + 'a TstycheBaseReporter_scheme" where
  "printErrors r payload =
     (case diagnostics payload of
        None \<Rightarrow> Inl (TypeError ''payload.diagnostics is not iterable'')
      | Some ds \<Rightarrow> Inr (printErrors_loop ds r))"

text \<open>A template literal renders an absent value as \<^verbatim>\<open>undefined\<close>.\<close>

fun template_value :: "string option \<Rightarrow> string" where
  "template_value None = ''undefined''"
| "template_value (Some s) = s"

definition printCompilerVersion ::
  "'a TstycheBaseReporter_scheme \<Rightarrow> 'a TstycheBaseReporter_scheme" where
  "printCompilerVersion r =
     console_log
       (header (format r)
          (''uses TypeScript '' @ template_value (currentCompilerVersion r) @
           '' with ./tsconfig.json'') 1) r"

definition base_beforePrintCompilerVersion ::
  "'a TstycheBaseReporter_scheme \<Rightarrow> 'a TstycheBaseReporter_scheme" where
  "base_beforePrintCompilerVersion r = r"

definition base_onError ::
  "'a TstycheBaseReporter_scheme \<Rightarrow> ReporterEvent \<Rightarrow> JsError + 'a TstycheBaseReporter_scheme" where
  "base_onError r reporterEvent = printErrors r (snd reporterEvent)"

definition base_onNonImplementedEvent ::
  "'a TstycheBaseReporter_scheme \<Rightarrow> ReporterEvent \<Rightarrow> JsError + 'a TstycheBaseReporter_scheme" where
  "base_onNonImplementedEvent r reporterEvent = Inr r"

definition base_onRunStart ::
  "'a TstycheBaseReporter_scheme \<Rightarrow> Payload \<Rightarrow> 'a TstycheBaseReporter_scheme" where
  "base_onRunStart r payload =
     r\<lparr>currentCompilerVersion := None, lastShownCompilerVersion := None\<rparr>"

text \<open>
  \<^verbatim>\<open>_onProjectUses\<close> calls the hook \<^verbatim>\<open>this._beforePrintCompilerVersion()\<close>, which a
  subclass may override; the hook is the first argument.
\<close>

definition base_onProjectUses ::
  "('a TstycheBaseReporter_scheme \<Rightarrow> 'a TstycheBaseReporter_scheme) \<Rightarrow>
   'a TstycheBaseReporter_scheme \<Rightarrow> Payload \<Rightarrow> 'a TstycheBaseReporter_scheme" where
  "base_onProjectUses beforePrintCompilerVersion r payload =
     (let r1 = r\<lparr>currentCompilerVersion := compilerVersion payload\<rparr>
      in if currentCompilerVersion r1 \<noteq> lastShownCompilerVersion r1
         then (let r2 = beforePrintCompilerVersion r1;
                   r3 = printCompilerVersion r2
               in r3\<lparr>lastShownCompilerVersion := currentCompilerVersion r3\<rparr>)
         else r1)"

definition base_onTestPass ::
  "'a TstycheBaseReporter_scheme \<Rightarrow> Payload \<Rightarrow> JsError + 'a TstycheBaseReporter_scheme" where
  "base_onTestPass r payload = Inl (Error ''_onTestPass() must be implemented by subclass'')"

definition base_onTestFail ::
  "'a TstycheBaseReporter_scheme \<Rightarrow> Payload \<Rightarrow> JsError + 'a TstycheBaseReporter_scheme" where
  "base_onTestFail r payload = Inl (Error ''_onTestFail() must be implemented by subclass'')"

definition base_onFileStart ::
  "'a TstycheBaseReporter_scheme \<Rightarrow> Payload \<Rightarrow> 'a TstycheBaseReporter_scheme" where
  "base_onFileStart r payload = r"

definition base_onDescribeStart ::
  "'a TstycheBaseReporter_scheme \<Rightarrow> Payload \<Rightarrow> 'a TstycheBaseReporter_scheme" where
  "base_onDescribeStart r payload = r"

definition base_onDescribeEnd ::
  "'a TstycheBaseReporter_scheme \<Rightarrow> Payload \<Rightarrow> 'a TstycheBaseReporter_scheme" where
  "base_onDescribeEnd r payload = r"

definition base_onRunEnd ::
  "'a TstycheBaseReporter_scheme \<Rightarrow> Payload \<Rightarrow> JsError + 'a TstycheBaseReporter_scheme" where
  "base_onRunEnd r payload = Inl (Error ''_onRunEnd() must be implemented by subclass'')"

text \<open>\<^verbatim>\<open>assertTypeIsNever\<close> always throws; the message has a default.\<close>

definition assertTypeIsNever :: "ReporterEvent \<Rightarrow> string option \<Rightarrow> JsError + 'r" where
  "assertTypeIsNever v message =
     Inl (Error (case message of None \<Rightarrow> ''Expected value to not exist'' | Some m \<Rightarrow> m))"

subsection \<open>Dispatch\<close>

text \<open>
  The handler methods that \<^verbatim>\<open>on\<close> calls through \<^verbatim>\<open>this\<close>: a reporter class is the
  table of its own implementations.
\<close>

record 'r Handlers =
  onError :: "'r \<Rightarrow> ReporterEvent \<Rightarrow> JsError + 'r"
  onNonImplementedEvent :: "'r \<Rightarrow> ReporterEvent \<Rightarrow> JsError + 'r"
  onRunStart :: "'r \<Rightarrow> Payload \<Rightarrow> JsError + 'r"
  onProjectUses :: "'r \<Rightarrow> Payload \<Rightarrow> JsError + 'r"
  onFileStart :: "'r \<Rightarrow> Payload \<Rightarrow> JsError + 'r"
  onDescribeStart :: "'r \<Rightarrow> Payload \<Rightarrow> JsError + 'r"
  onDescribeEnd :: "'r \<Rightarrow> Payload \<Rightarrow> JsError + 'r"
  onTestPass :: "'r \<Rightarrow> Payload \<Rightarrow> JsError + 'r"
  onTestFail :: "'r \<Rightarrow> Payload \<Rightarrow> JsError + 'r"
  onRunEnd :: "'r \<Rightarrow> Payload \<Rightarrow> JsError + 'r"

definition error_kinds :: "string list" where
  "error_kinds =
     [''store:error'', ''project:error'', ''file:error'', ''directive:error'',
      ''collect:error'', ''test:error'', ''expect:error'', ''suppressed:error'',
      ''watch:error'']"

definition non_implemented_kinds :: "string list" where
  "non_implemented_kinds =
     [''store:adds'', ''target:start'', ''target:end'', ''file:end'', ''collect:start'',
      ''collect:node'', ''collect:end'', ''test:start'', ''test:skip'', ''test:fixme'',
      ''test:todo'', ''expect:start'', ''expect:fail'', ''expect:pass'', ''expect:skip'',
      ''expect:fixme'', ''suppressed:match'', ''suppressed:ignore'']"

definition on :: "'r Handlers \<Rightarrow> 'r \<Rightarrow> ReporterEvent \<Rightarrow> JsError + 'r" where
  "on this r reporterEvent =
     (let kind = fst reporterEvent
      in if kind \<in> set error_kinds then onError this r reporterEvent
         else if kind = ''run:start'' then onRunStart this r (snd reporterEvent)
         else if kind = ''project:uses'' then onProjectUses this r (snd reporterEvent)
         else if kind = ''file:start'' then onFileStart this r (snd reporterEvent)
         else if kind = ''describe:start'' then onDescribeStart this r (snd reporterEvent)
         else if kind = ''describe:end'' then onDescribeEnd this r (snd reporterEvent)
         else if kind = ''test:pass'' then onTestPass this r (snd reporterEvent)
         else if kind = ''test:fail'' then onTestFail this r (snd reporterEvent)
         else if kind = ''run:end'' then onRunEnd this r (snd reporterEvent)
         else if kind \<in> set non_implemented_kinds
              then onNonImplementedEvent this r reporterEvent
         else assertTypeIsNever reporterEvent None)"

definition TstycheBaseReporter_handlers ::
  "'a TstycheBaseReporter_scheme Handlers" where
  "TstycheBaseReporter_handlers =
     \<lparr>onError = base_onError,
      onNonImplementedEvent = base_onNonImplementedEvent,
      onRunStart = (\<lambda>r p. Inr (base_onRunStart r p)),
      onProjectUses = (\<lambda>r p. Inr (base_onProjectUses base_beforePrintCompilerVersion r p)),
      onFileStart = (\<lambda>r p. Inr (base_onFileStart r p)),
      onDescribeStart = (\<lambda>r p. Inr (base_onDescribeStart r p)),
      onDescribeEnd = (\<lambda>r p. Inr (base_onDescribeEnd r p)),
      onTestPass = base_onTestPass,
      onTestFail = base_onTestFail,
      onRunEnd = base_onRunEnd\<rparr>"

text \<open>
  The producer delivers the events of a run one at a time, in order; an exception thrown by
  \<^verbatim>\<open>on\<close> ends the delivery.
\<close>

fun dispatch_all :: "'r Handlers \<Rightarrow> 'r \<Rightarrow> ReporterEvent list \<Rightarrow> JsError + 'r" where
  "dispatch_all this r [] = Inr r"
| "dispatch_all this r (e # es) =
     (case on this r e of Inl err \<Rightarrow> Inl err | Inr r' \<Rightarrow> dispatch_all this r' es)"

section \<open>The dot reporter\<close>

record TstycheDotReporter = TstycheBaseReporter +
  dotsOnCurrentLine :: nat

definition new_TstycheDotReporter :: "MarkdownOrChalk \<Rightarrow> TstycheDotReporter" where
  "new_TstycheDotReporter fmt =
     \<lparr>format = fmt, currentCompilerVersion = None, lastShownCompilerVersion = None,
      console = [], dotsOnCurrentLine = 0\<rparr>"

definition dot_onRunStart :: "TstycheDotReporter \<Rightarrow> Payload \<Rightarrow> TstycheDotReporter" where
  "dot_onRunStart r payload = (base_onRunStart r payload)\<lparr>dotsOnCurrentLine := 0\<rparr>"

definition writeDotChar :: "TstycheDotReporter \<Rightarrow> string \<Rightarrow> TstycheDotReporter" where
  "writeDotChar r char =
     (let r1 = stdout_write char r;
          r2 = r1\<lparr>dotsOnCurrentLine := dotsOnCurrentLine r1 + 1\<rparr>
      in if dotsOnCurrentLine r2 \<ge> 80
         then (console_log '''' r2)\<lparr>dotsOnCurrentLine := 0\<rparr>
         else r2)"

definition flushDots :: "TstycheDotReporter \<Rightarrow> TstycheDotReporter" where
  "flushDots r =
     (if dotsOnCurrentLine r > 0
      then (console_log '''' r)\<lparr>dotsOnCurrentLine := 0\<rparr>
      else r)"

definition dot_beforePrintCompilerVersion :: "TstycheDotReporter \<Rightarrow> TstycheDotReporter" where
  "dot_beforePrintCompilerVersion r = flushDots r"

definition dot_onTestPass :: "TstycheDotReporter \<Rightarrow> Payload \<Rightarrow> TstycheDotReporter" where
  "dot_onTestPass r payload = writeDotChar r ''.''"

definition dot_onTestFail :: "TstycheDotReporter \<Rightarrow> Payload \<Rightarrow> TstycheDotReporter" where
  "dot_onTestFail r payload = writeDotChar r ''F''"

definition dot_onRunEnd :: "TstycheDotReporter \<Rightarrow> Payload \<Rightarrow> TstycheDotReporter" where
  "dot_onRunEnd r payload = console_log '''' (console_log '''' (flushDots r))"

definition dot_onError ::
  "TstycheDotReporter \<Rightarrow> ReporterEvent \<Rightarrow> JsError + TstycheDotReporter" where
  "dot_onError r reporterEvent = base_onError (flushDots r) reporterEvent"

definition TstycheDotReporter_handlers :: "TstycheDotReporter Handlers" where
  "TstycheDotReporter_handlers =
     \<lparr>onError = dot_onError,
      onNonImplementedEvent = base_onNonImplementedEvent,
      onRunStart = (\<lambda>r p. Inr (dot_onRunStart r p)),
      onProjectUses = (\<lambda>r p. Inr (base_onProjectUses dot_beforePrintCompilerVersion r p)),
      onFileStart = (\<lambda>r p. Inr (base_onFileStart r p)),
      onDescribeStart = (\<lambda>r p. Inr (base_onDescribeStart r p)),
      onDescribeEnd = (\<lambda>r p. Inr (base_onDescribeEnd r p)),
      onTestPass = (\<lambda>r p. Inr (dot_onTestPass r p)),
      onTestFail = (\<lambda>r p. Inr (dot_onTestFail r p)),
      onRunEnd = (\<lambda>r p. Inr (dot_onRunEnd r p))\<rparr>"

section \<open>The mocha reporter\<close>

record Describe =
  name :: string

record TstycheMochaReporter = TstycheBaseReporter +
  currentDescribeStack :: "Describe list"

definition new_TstycheMochaReporter :: "MarkdownOrChalk \<Rightarrow> TstycheMochaReporter" where
  "new_TstycheMochaReporter fmt =
     \<lparr>format = fmt, currentCompilerVersion = None, lastShownCompilerVersion = None,
      console = [], currentDescribeStack = []\<rparr>"

definition mocha_onRunStart :: "TstycheMochaReporter \<Rightarrow> Payload \<Rightarrow> TstycheMochaReporter" where
  "mocha_onRunStart r payload = (base_onRunStart r payload)\<lparr>currentDescribeStack := []\<rparr>"

definition mocha_onFileStart :: "TstycheMochaReporter \<Rightarrow> Payload \<Rightarrow> TstycheMochaReporter" where
  "mocha_onFileStart r payload = r\<lparr>currentDescribeStack := []\<rparr>"

definition printDescribeStart ::
  "TstycheMochaReporter \<Rightarrow> Describe \<Rightarrow> nat \<Rightarrow> TstycheMochaReporter" where
  "printDescribeStart r d level =
     (let hdr = header (format r) (name d) (if level = 0 then 2 else 3)
      in console_log hdr r)"

text \<open>
  \<^verbatim>\<open>payload.result || {}\<close>, \<^verbatim>\<open>result.describe ?? {}\<close> and
  \<^verbatim>\<open>describeObj.name ?? 'describe'\<close>: an absent object is replaced by the empty object,
  an absent name by the default.
\<close>

definition mocha_onDescribeStart ::
  "TstycheMochaReporter \<Rightarrow> Payload \<Rightarrow> TstycheMochaReporter" where
  "mocha_onDescribeStart r payload =
     (let res = (case result payload of Some x \<Rightarrow> x
                 | None \<Rightarrow> \<lparr>describe = None, test = None\<rparr>);
          describeObj = (case describe res of Some x \<Rightarrow> x
                         | None \<Rightarrow> \<lparr>member_name = None\<rparr>);
          d = \<lparr>name = (case member_name describeObj of Some n \<Rightarrow> n
                       | None \<Rightarrow> ''describe'')\<rparr>;
          r1 = r\<lparr>currentDescribeStack := currentDescribeStack r @ [d]\<rparr>;
          ind = length (currentDescribeStack r1) - 1
      in printDescribeStart r1 d ind)"

text \<open>\<^verbatim>\<open>Array.prototype.pop\<close> removes the last element; on the empty array it does nothing.\<close>

definition mocha_onDescribeEnd :: "TstycheMochaReporter \<Rightarrow> Payload \<Rightarrow> TstycheMochaReporter" where
  "mocha_onDescribeEnd r payload = r\<lparr>currentDescribeStack := butlast (currentDescribeStack r)\<rparr>"

definition printTest ::
  "TstycheMochaReporter \<Rightarrow> string \<Rightarrow> bool \<Rightarrow> nat \<Rightarrow> TstycheMochaReporter" where
  "printTest r description passed ind =
     (let mark = (if passed then success (logSymbols (format r))
                  else error (logSymbols (format r)));
          testLine = mark @ '' '' @ description;
          testLine = (case chalk (format r) of
                        Some c \<Rightarrow> if passed then gray c testLine else red c testLine
                      | None \<Rightarrow> testLine);
          output = (if chalk (format r) \<noteq> None \<and> ind > 0
                    then indent (format r) testLine ind
                    else testLine)
      in console_log output r)"

definition recordTest ::
  "TstycheMochaReporter \<Rightarrow> Payload \<Rightarrow> bool \<Rightarrow> TstycheMochaReporter" where
  "recordTest r payload passed =
     (let res = (case result payload of Some x \<Rightarrow> x
                 | None \<Rightarrow> \<lparr>describe = None, test = None\<rparr>);
          testObj = (case test res of Some x \<Rightarrow> x | None \<Rightarrow> \<lparr>member_name = None\<rparr>);
          description = (case member_name testObj of Some n \<Rightarrow> n | None \<Rightarrow> ''test'');
          ind = length (currentDescribeStack r)
      in printTest r description passed ind)"

definition mocha_onTestPass :: "TstycheMochaReporter \<Rightarrow> Payload \<Rightarrow> TstycheMochaReporter" where
  "mocha_onTestPass r payload = recordTest r payload True"

definition mocha_onTestFail :: "TstycheMochaReporter \<Rightarrow> Payload \<Rightarrow> TstycheMochaReporter" where
  "mocha_onTestFail r payload = recordTest r payload False"

definition mocha_onRunEnd :: "TstycheMochaReporter \<Rightarrow> Payload \<Rightarrow> TstycheMochaReporter" where
  "mocha_onRunEnd r payload = console_log '''' r"

definition mocha_onError ::
  "TstycheMochaReporter \<Rightarrow> ReporterEvent \<Rightarrow> JsError + TstycheMochaReporter" where
  "mocha_onError r reporterEvent = base_onError (console_log '''' r) reporterEvent"

definition TstycheMochaReporter_handlers :: "TstycheMochaReporter Handlers" where
  "TstycheMochaReporter_handlers =
     \<lparr>onError = mocha_onError,
      onNonImplementedEvent = base_onNonImplementedEvent,
      onRunStart = (\<lambda>r p. Inr (mocha_onRunStart r p)),
      onProjectUses = (\<lambda>r p. Inr (base_onProjectUses base_beforePrintCompilerVersion r p)),
      onFileStart = (\<lambda>r p. Inr (mocha_onFileStart r p)),
      onDescribeStart = (\<lambda>r p. Inr (mocha_onDescribeStart r p)),
      onDescribeEnd = (\<lambda>r p. Inr (mocha_onDescribeEnd r p)),
      onTestPass = (\<lambda>r p. Inr (mocha_onTestPass r p)),
      onTestFail = (\<lambda>r p. Inr (mocha_onTestFail r p)),
      onRunEnd = (\<lambda>r p. Inr (mocha_onRunEnd r p))\<rparr>"

section \<open>Observations on the sink\<close>

text \<open>
  The text that has reached standard output: \<^verbatim>\<open>process.stdout.write\<close> adds its
  argument, \<^verbatim>\<open>console.log\<close> its argument and a line break; \<^verbatim>\<open>console.error\<close>
  writes to standard error.
\<close>

fun stdout_text :: "out list \<Rightarrow> string" where
  "stdout_text [] = []"
| "stdout_text (StdoutWrite s # os) = s @ stdout_text os"
| "stdout_text (ConsoleLog s # os) = s @ ''\<newline>'' @ stdout_text os"
| "stdout_text (ConsoleError s # os) = stdout_text os"

text \<open>\<open>n\<close> successive writes of the same mark to the dot buffer.\<close>

definition write_marks :: "nat \<Rightarrow> string \<Rightarrow> TstycheDotReporter \<Rightarrow> TstycheDotReporter" where
  "write_marks n char r = ((\<lambda>r'. writeDotChar r' char) ^^ n) r"

text \<open>
  Two sample rendering primitives for concrete runs: one without a colorizer (markdown
  mode), whose heading is a line of hashes and the text between two line breaks, and one
  with a colorizer (CLI mode). They stand in for the external library, whose symbols and
  colors are not modelled; the theorems hold for every primitive.
\<close>

definition markdown_format :: MarkdownOrChalk where
  "markdown_format =
     \<lparr>header = (\<lambda>t level. ''\<newline>'' @ replicate level (CHR ''#'') @ '' '' @ t @ ''\<newline>''),
      indent = (\<lambda>t depth. replicate (2 * depth) (CHR '' '') @ t),
      logSymbols = \<lparr>success = '':white_check_mark:'', error = '':stop_sign:''\<rparr>,
      chalk = None\<rparr>"

definition cli_format :: MarkdownOrChalk where
  "cli_format =
     \<lparr>header = (\<lambda>t level. ''<bold>'' @ t @ ''</bold>''),
      indent = (\<lambda>t depth. replicate (2 * depth) (CHR '' '') @ t),
      logSymbols = \<lparr>success = ''ok'', error = ''not ok''\<rparr>,
      chalk = Some \<lparr>gray = (\<lambda>s. ''<gray>'' @ s @ ''</gray>''),
                    red = (\<lambda>s. ''<red>'' @ s @ ''</red>'')\<rparr>\<rparr>"

text \<open>
  The closed enumeration of event kinds that \<^verbatim>\<open>on\<close> names: the error kinds, the
  lifecycle kinds with a handler of their own, and the not-yet-implemented kinds.
\<close>

definition lifecycle_kinds :: "string list" where
  "lifecycle_kinds =
     [''run:start'', ''project:uses'', ''file:start'', ''describe:start'', ''describe:end'',
      ''test:pass'', ''test:fail'', ''run:end'']"

definition known_kinds :: "string list" where
  "known_kinds = error_kinds @ lifecycle_kinds @ non_implemented_kinds"

text \<open>
  A well-formed payload: the payload of an error event has its \<^verbatim>\<open>diagnostics\<close> array.
  No handler needs any other property to be present.
\<close>

definition payload_ok :: "ReporterEvent \<Rightarrow> bool" where
  "payload_ok ev = (fst ev \<in> set error_kinds \<longrightarrow> diagnostics (snd ev) \<noteq> None)"

text \<open>Sample events.\<close>

definition empty_payload :: Payload where
  "empty_payload = \<lparr>diagnostics = None, compilerVersion = None, result = None\<rparr>"

definition project_uses :: "string \<Rightarrow> ReporterEvent" where
  "project_uses v = (''project:uses'', empty_payload\<lparr>compilerVersion := Some v\<rparr>)"

definition describe_start :: "string \<Rightarrow> ReporterEvent" where
  "describe_start n =
     (''describe:start'',
      empty_payload\<lparr>result :=
        Some \<lparr>describe = Some \<lparr>member_name = Some n\<rparr>, test = None\<rparr>\<rparr>)"

definition test_event :: "string \<Rightarrow> string \<Rightarrow> ReporterEvent" where
  "test_event kind n =
     (kind,
      empty_payload\<lparr>result :=
        Some \<lparr>describe = None, test = Some \<lparr>member_name = Some n\<rparr>\<rparr>\<rparr>)"

definition error_event :: "string \<Rightarrow> Diagnostic list \<Rightarrow> ReporterEvent" where
  "error_event kind ds = (kind, empty_payload\<lparr>diagnostics := Some ds\<rparr>)"

text \<open>The line that \<^verbatim>\<open>_printCompilerVersion\<close> logs for a compiler version.\<close>

definition version_header :: "MarkdownOrChalk \<Rightarrow> string option \<Rightarrow> out" where
  "version_header fmt v =
     ConsoleLog (header fmt (''uses TypeScript '' @ template_value v @
                             '' with ./tsconfig.json'') 1)"

text \<open>
  The marks on standard output: what \<^verbatim>\<open>process.stdout.write\<close> has written. The dot
  reporter makes this call for its marks only.
\<close>

fun marks :: "out list \<Rightarrow> string" where
  "marks [] = []"
| "marks (StdoutWrite s # os) = s @ marks os"
| "marks (ConsoleLog s # os) = marks os"
| "marks (ConsoleError s # os) = marks os"

text \<open>The pending line of a text: the characters behind its last line break.\<close>

definition open_line :: "string \<Rightarrow> string" where
  "open_line s = rev (takeWhile (\<lambda>c. c \<noteq> CHR 0x0A) (rev s))"

text \<open>The column count of the dot reporter agrees with the pending line of standard output.\<close>

definition line_in_sync :: "TstycheDotReporter \<Rightarrow> bool" where
  "line_in_sync d = (dotsOnCurrentLine d = length (open_line (stdout_text (console d))))"

text \<open>
  Out-of-band output starts on a fresh line: scanning the sink behind the standard-output
  text \<open>pre\<close>, every \<^verbatim>\<open>console.error\<close> call and every \<^verbatim>\<open>console.log\<close> call with a
  text (a version header; the empty \<^verbatim>\<open>console.log\<close> only terminates a line) is made
  while the pending line of standard output is empty.
\<close>

fun oob_fresh :: "string \<Rightarrow> out list \<Rightarrow> bool" where
  "oob_fresh pre [] = True"
| "oob_fresh pre (StdoutWrite s # os) = oob_fresh (pre @ s) os"
| "oob_fresh pre (ConsoleLog s # os) =
     ((s = [] \<or> open_line pre = []) \<and> oob_fresh (pre @ s @ ''\<newline>'') os)"
| "oob_fresh pre (ConsoleError s # os) = (open_line pre = [] \<and> oob_fresh pre os)"

text \<open>
  The run cycle of the producer, as far as the dot buffer depends on it: a
  \<^verbatim>\<open>run:start\<close> arrives only while no run is active, \<^verbatim>\<open>run:end\<close> ends the run,
  and \<^verbatim>\<open>test:pass\<close> and \<^verbatim>\<open>test:fail\<close> arrive only inside a run. The first argument
  tells whether a run is active.
\<close>

fun run_cycle :: "bool \<Rightarrow> ReporterEvent list \<Rightarrow> bool" where
  "run_cycle active [] = True"
| "run_cycle active (e # es) =
     (if fst e = ''run:start'' then \<not> active \<and> run_cycle True es
      else if fst e = ''run:end'' then run_cycle False es
      else if fst e = ''test:pass'' \<or> fst e = ''test:fail'' then active \<and> run_cycle active es
      else run_cycle active es)"

text \<open>
  Two dot reporters that agree on the version fields, on the column count and on the marks
  written: they may differ in the rendering primitive and in the texts it has rendered.
\<close>

definition same_marks :: "TstycheDotReporter \<Rightarrow> TstycheDotReporter \<Rightarrow> bool" where
  "same_marks a b =
     (currentCompilerVersion a = currentCompilerVersion b
      \<and> lastShownCompilerVersion a = lastShownCompilerVersion b
      \<and> dotsOnCurrentLine a = dotsOnCurrentLine b
      \<and> marks (console a) = marks (console b))"

section \<open>Diagnostic formatter: reference values\<close>

text \<open>
  C6: the diagnostic with text "bad type" and code "E1" formats to "bad type (E1)"; with one
  related entry of text "context" it formats to "bad type (E1)", a line break, two spaces and
  "context". On a text of several lines the code suffix is on the first line only, and
  several related entries follow in their order, each on a line of its own behind two
  spaces.
\<close>

theorem formatDiagnostic_reference:
  "formatDiagnostic (Diagnostic (Scalar ''bad type'') (Some ''E1'') None None)
     = ''bad type (E1)''
   \<and> formatDiagnostic (Diagnostic (Scalar ''bad type'') (Some ''E1'') None
        (Some [Diagnostic (Scalar ''context'') None None None]))
     = ''bad type (E1)\<newline>  context''
   \<and> formatDiagnostic (Diagnostic (Array [''bad type'', ''second line'']) (Some ''E1'') None
        (Some [Diagnostic (Scalar ''context'') None None None,
               Diagnostic (Scalar ''more'') (Some ''E2'') None None]))
     = ''bad type (E1)\<newline>second line\<newline>  context\<newline>  more (E2)''"
  by simp

section \<open>The dot buffer\<close>

lemma stdout_text_append: "stdout_text (xs @ ys) = stdout_text xs @ stdout_text ys"
  by (induction xs rule: stdout_text.induct) simp_all

lemma stdout_text_marks: "stdout_text (replicate n (StdoutWrite [c])) = replicate n c"
  by (induction n) simp_all

lemma writeDotChar_step:
  "writeDotChar r c =
     (if 80 \<le> Suc (dotsOnCurrentLine r)
      then r\<lparr>console := console r @ [StdoutWrite c, ConsoleLog ''''], dotsOnCurrentLine := 0\<rparr>
      else r\<lparr>console := console r @ [StdoutWrite c],
             dotsOnCurrentLine := Suc (dotsOnCurrentLine r)\<rparr>)"
  by (simp add: writeDotChar_def stdout_write_def console_log_def Let_def)

lemma flushDots_step:
  "flushDots r =
     (if 0 < dotsOnCurrentLine r
      then r\<lparr>console := console r @ [ConsoleLog ''''], dotsOnCurrentLine := 0\<rparr>
      else r)"
  by (simp add: flushDots_def console_log_def)

lemma write_marks_open:
  "dotsOnCurrentLine r + n < 80 \<Longrightarrow>
   write_marks n c r =
     r\<lparr>console := console r @ replicate n (StdoutWrite c),
       dotsOnCurrentLine := dotsOnCurrentLine r + n\<rparr>"
proof (induction n)
  case 0
  then show ?case by (simp add: write_marks_def)
next
  case (Suc n)
  then have "write_marks (Suc n) c r =
      writeDotChar (r\<lparr>console := console r @ replicate n (StdoutWrite c),
                       dotsOnCurrentLine := dotsOnCurrentLine r + n\<rparr>) c"
    by (simp add: write_marks_def)
  with Suc.prems show ?case
    by (simp add: writeDotChar_step replicate_append_same)
qed

lemma write_marks_80:
  assumes "dotsOnCurrentLine r = 0"
  shows "write_marks 80 c r =
     r\<lparr>console := console r @ replicate 80 (StdoutWrite c) @ [ConsoleLog ''''],
       dotsOnCurrentLine := 0\<rparr>"
proof -
  have "write_marks 80 c r = writeDotChar (write_marks 79 c r) c"
    by (simp add: write_marks_def eval_nat_numeral)
  also have "write_marks 79 c r =
      r\<lparr>console := console r @ replicate 79 (StdoutWrite c), dotsOnCurrentLine := 79\<rparr>"
    using write_marks_open [of r 79 c] assms by simp
  finally show ?thesis
    by (simp add: writeDotChar_step replicate_append_same eval_nat_numeral)
qed

text \<open>
  C3: each write emits its mark with no terminator and increments the column count; the
  line is terminated and the count reset to 0 when the incremented count reaches 80 (the
  code tests \<open>\<ge> 80\<close>; a count below 80 stays below 80, so the reset happens exactly at
  80). From column count 0, 80 pass marks give one line of 80 marks and a line break, with
  the count back at 0, and the 81st mark starts the next line.
\<close>

theorem writeDotChar_wraps_at_80:
  "stdout_text (console (writeDotChar r c)) =
     stdout_text (console r) @ c @ (if dotsOnCurrentLine r + 1 \<ge> 80 then ''\<newline>'' else [])
   \<and> dotsOnCurrentLine (writeDotChar r c) =
       (if dotsOnCurrentLine r + 1 \<ge> 80 then 0 else dotsOnCurrentLine r + 1)
   \<and> (dotsOnCurrentLine r < 80 \<longrightarrow>
        dotsOnCurrentLine (writeDotChar r c) < 80 \<and>
        (dotsOnCurrentLine (writeDotChar r c) = 0 \<longleftrightarrow> dotsOnCurrentLine r + 1 = 80))
   \<and> (dotsOnCurrentLine r = 0 \<longrightarrow>
        stdout_text (console (write_marks 80 ''.'' r)) =
          stdout_text (console r) @ replicate 80 (CHR ''.'') @ ''\<newline>''
        \<and> dotsOnCurrentLine (write_marks 80 ''.'' r) = 0
        \<and> stdout_text (console (write_marks 81 ''.'' r)) =
          stdout_text (console r) @ replicate 80 (CHR ''.'') @ ''\<newline>'' @ ''.''
        \<and> dotsOnCurrentLine (write_marks 81 ''.'' r) = 1)"
proof (intro conjI impI)
  show "stdout_text (console (writeDotChar r c)) =
     stdout_text (console r) @ c @ (if dotsOnCurrentLine r + 1 \<ge> 80 then ''\<newline>'' else [])"
    by (simp add: writeDotChar_step stdout_text_append)
  show "dotsOnCurrentLine (writeDotChar r c) =
       (if dotsOnCurrentLine r + 1 \<ge> 80 then 0 else dotsOnCurrentLine r + 1)"
    by (simp add: writeDotChar_step)
next
  assume "dotsOnCurrentLine r < 80"
  then show "dotsOnCurrentLine (writeDotChar r c) < 80"
    by (simp add: writeDotChar_step)
  show "dotsOnCurrentLine (writeDotChar r c) = 0 \<longleftrightarrow> dotsOnCurrentLine r + 1 = 80"
    using \<open>dotsOnCurrentLine r < 80\<close> by (auto simp add: writeDotChar_step)
next
  assume z: "dotsOnCurrentLine r = 0"
  have w81: "write_marks 81 ''.'' r = writeDotChar (write_marks 80 ''.'' r) ''.''"
    by (simp add: write_marks_def eval_nat_numeral)
  show "stdout_text (console (write_marks 80 ''.'' r)) =
          stdout_text (console r) @ replicate 80 (CHR ''.'') @ ''\<newline>''"
    by (simp add: write_marks_80 [OF z] stdout_text_append stdout_text_marks)
  show "dotsOnCurrentLine (write_marks 80 ''.'' r) = 0"
    by (simp add: write_marks_80 [OF z])
  show "stdout_text (console (write_marks 81 ''.'' r)) =
          stdout_text (console r) @ replicate 80 (CHR ''.'') @ ''\<newline>'' @ ''.''"
    by (simp add: w81 write_marks_80 [OF z] writeDotChar_step stdout_text_append stdout_text_marks)
  show "dotsOnCurrentLine (write_marks 81 ''.'' r) = 1"
    by (simp add: w81 write_marks_80 [OF z] writeDotChar_step)
qed

theorem writeDotChar_wraps_at_80_witness:
  "dotsOnCurrentLine (new_TstycheDotReporter markdown_format) = 0
   \<and> dotsOnCurrentLine (new_TstycheDotReporter markdown_format) < 80
   \<and> stdout_text (console (writeDotChar (new_TstycheDotReporter markdown_format) ''.'')) = ''.''
   \<and> dotsOnCurrentLine (writeDotChar (new_TstycheDotReporter markdown_format) ''.'') = 1
   \<and> stdout_text (console (write_marks 80 ''.'' (new_TstycheDotReporter markdown_format))) =
       replicate 80 (CHR ''.'') @ ''\<newline>''
   \<and> dotsOnCurrentLine (write_marks 80 ''.'' (new_TstycheDotReporter markdown_format)) = 0
   \<and> stdout_text (console (write_marks 81 ''.'' (new_TstycheDotReporter markdown_format))) =
       replicate 80 (CHR ''.'') @ ''\<newline>'' @ ''.''
   \<and> dotsOnCurrentLine (write_marks 81 ''.'' (new_TstycheDotReporter markdown_format)) = 1"
proof -
  have z: "dotsOnCurrentLine (new_TstycheDotReporter markdown_format) = 0"
    by (simp add: new_TstycheDotReporter_def)
  have c: "console (new_TstycheDotReporter markdown_format) = []"
    by (simp add: new_TstycheDotReporter_def)
  show ?thesis
    using writeDotChar_wraps_at_80 [of "new_TstycheDotReporter markdown_format" "''.''"] z c
    by simp
qed

text \<open>
  C8: flushing at column count 0 changes nothing: no line terminator is emitted and the
  count stays 0. At a count above 0 it terminates the line (one empty
  \<^verbatim>\<open>console.log\<close>) and resets the count to 0.
\<close>

theorem flushDots_noop_at_column_0:
  "(dotsOnCurrentLine r = 0 \<longrightarrow> flushDots r = r)
   \<and> (dotsOnCurrentLine r > 0 \<longrightarrow>
        flushDots r = r\<lparr>console := console r @ [ConsoleLog ''''], dotsOnCurrentLine := 0\<rparr>
        \<and> stdout_text (console (flushDots r)) = stdout_text (console r) @ ''\<newline>''
        \<and> dotsOnCurrentLine (flushDots r) = 0)"
  by (simp add: flushDots_step stdout_text_append)

theorem flushDots_noop_at_column_0_witness:
  "dotsOnCurrentLine (new_TstycheDotReporter markdown_format) = 0
   \<and> flushDots (new_TstycheDotReporter markdown_format) = new_TstycheDotReporter markdown_format
   \<and> dotsOnCurrentLine (writeDotChar (new_TstycheDotReporter markdown_format) ''F'') > 0
   \<and> stdout_text (console (flushDots (writeDotChar (new_TstycheDotReporter markdown_format) ''F'')))
       = ''F\<newline>''
   \<and> dotsOnCurrentLine (flushDots (writeDotChar (new_TstycheDotReporter markdown_format) ''F'')) = 0"
proof -
  have z: "dotsOnCurrentLine (new_TstycheDotReporter markdown_format) = 0"
    by (simp add: new_TstycheDotReporter_def)
  have p: "dotsOnCurrentLine (writeDotChar (new_TstycheDotReporter markdown_format) ''F'') > 0"
    by (simp add: writeDotChar_step z)
  have t: "stdout_text (console (writeDotChar (new_TstycheDotReporter markdown_format) ''F'')) = ''F''"
    by (simp add: writeDotChar_step z new_TstycheDotReporter_def)
  have a: "flushDots (new_TstycheDotReporter markdown_format) =
      new_TstycheDotReporter markdown_format"
    using flushDots_noop_at_column_0 [of "new_TstycheDotReporter markdown_format"] z
    by blast
  have b: "stdout_text (console (flushDots (writeDotChar (new_TstycheDotReporter markdown_format) ''F'')))
        = stdout_text (console (writeDotChar (new_TstycheDotReporter markdown_format) ''F'')) @ ''\<newline>''
      \<and> dotsOnCurrentLine (flushDots (writeDotChar (new_TstycheDotReporter markdown_format) ''F'')) = 0"
    using flushDots_noop_at_column_0 [of "writeDotChar (new_TstycheDotReporter markdown_format) ''F''"] p
    by blast
  show ?thesis
    using a b z p t by simp
qed

section \<open>Dispatch\<close>

lemma on_lifecycle:
  "on h r (''run:start'', p) = onRunStart h r p"
  "on h r (''project:uses'', p) = onProjectUses h r p"
  "on h r (''file:start'', p) = onFileStart h r p"
  "on h r (''describe:start'', p) = onDescribeStart h r p"
  "on h r (''describe:end'', p) = onDescribeEnd h r p"
  "on h r (''test:pass'', p) = onTestPass h r p"
  "on h r (''test:fail'', p) = onTestFail h r p"
  "on h r (''run:end'', p) = onRunEnd h r p"
  by (simp_all add: on_def error_kinds_def)

lemma on_error_kind:
  "k \<in> set error_kinds \<Longrightarrow> on h r (k, p) = onError h r (k, p)"
  by (simp add: on_def)

lemma non_implemented_not_error:
  "k \<in> set non_implemented_kinds \<Longrightarrow> k \<notin> set error_kinds"
  by (auto simp add: non_implemented_kinds_def error_kinds_def)

lemma non_implemented_not_lifecycle:
  "k \<in> set non_implemented_kinds \<Longrightarrow> k \<notin> set lifecycle_kinds"
  by (auto simp add: non_implemented_kinds_def lifecycle_kinds_def)

lemma on_non_implemented_kind:
  assumes "k \<in> set non_implemented_kinds"
  shows "on h r (k, p) = onNonImplementedEvent h r (k, p)"
proof -
  have "k \<notin> set lifecycle_kinds" using assms by (rule non_implemented_not_lifecycle)
  then have "k \<noteq> ''run:start''" "k \<noteq> ''project:uses''" "k \<noteq> ''file:start''"
    "k \<noteq> ''describe:start''" "k \<noteq> ''describe:end''" "k \<noteq> ''test:pass''"
    "k \<noteq> ''test:fail''" "k \<noteq> ''run:end''"
    by (auto simp add: lifecycle_kinds_def)
  then show ?thesis
    using assms non_implemented_not_error [OF assms] by (simp add: on_def)
qed

lemma on_unknown_kind:
  assumes "k \<notin> set known_kinds"
  shows "on h r (k, p) = Inl (Error ''Expected value to not exist'')"
proof -
  from assms have e: "k \<notin> set error_kinds" and l: "k \<notin> set lifecycle_kinds"
    and n: "k \<notin> set non_implemented_kinds"
    by (simp_all add: known_kinds_def)
  from l have "k \<noteq> ''run:start''" "k \<noteq> ''project:uses''" "k \<noteq> ''file:start''"
    "k \<noteq> ''describe:start''" "k \<noteq> ''describe:end''" "k \<noteq> ''test:pass''"
    "k \<noteq> ''test:fail''" "k \<noteq> ''run:end''"
    by (auto simp add: lifecycle_kinds_def)
  then show ?thesis
    using e n by (simp add: on_def assertTypeIsNever_def)
qed

lemma printErrors_loop_fields:
  "currentCompilerVersion (printErrors_loop ds r) = currentCompilerVersion r"
  "lastShownCompilerVersion (printErrors_loop ds r) = lastShownCompilerVersion r"
  "format (printErrors_loop ds r) = format r"
  by (induction ds arbitrary: r; simp add: console_error_def Let_def)+

lemma printErrors_loop_dots:
  "dotsOnCurrentLine (printErrors_loop ds r) = dotsOnCurrentLine r"
  by (induction ds arbitrary: r) (simp_all add: console_error_def Let_def)

lemma printErrors_loop_stack:
  "currentDescribeStack (printErrors_loop ds r) = currentDescribeStack r"
  by (induction ds arbitrary: r) (simp_all add: console_error_def Let_def)

lemma flushDots_fields:
  "currentCompilerVersion (flushDots r) = currentCompilerVersion r"
  "lastShownCompilerVersion (flushDots r) = lastShownCompilerVersion r"
  "format (flushDots r) = format r"
  "dotsOnCurrentLine (flushDots r) = 0"
  by (simp_all add: flushDots_step)

lemma writeDotChar_fields:
  "currentCompilerVersion (writeDotChar r c) = currentCompilerVersion r"
  "lastShownCompilerVersion (writeDotChar r c) = lastShownCompilerVersion r"
  "format (writeDotChar r c) = format r"
  by (simp_all add: writeDotChar_step)

lemma dot_on_error:
  assumes "k \<in> set error_kinds"
  shows "on TstycheDotReporter_handlers r (k, p) =
     (case diagnostics p of
        None \<Rightarrow> Inl (TypeError ''payload.diagnostics is not iterable'')
      | Some ds \<Rightarrow> Inr (printErrors_loop ds (flushDots r)))"
  using assms
  by (simp add: on_error_kind TstycheDotReporter_handlers_def dot_onError_def base_onError_def
      printErrors_def)

lemma mocha_on_error:
  assumes "k \<in> set error_kinds"
  shows "on TstycheMochaReporter_handlers r (k, p) =
     (case diagnostics p of
        None \<Rightarrow> Inl (TypeError ''payload.diagnostics is not iterable'')
      | Some ds \<Rightarrow> Inr (printErrors_loop ds (console_log '''' r)))"
  using assms
  by (simp add: on_error_kind TstycheMochaReporter_handlers_def mocha_onError_def base_onError_def
      printErrors_def)

lemma dot_on_lifecycle:
  "on TstycheDotReporter_handlers r (''run:start'', p) = Inr (dot_onRunStart r p)"
  "on TstycheDotReporter_handlers r (''project:uses'', p) =
     Inr (base_onProjectUses dot_beforePrintCompilerVersion r p)"
  "on TstycheDotReporter_handlers r (''file:start'', p) = Inr r"
  "on TstycheDotReporter_handlers r (''describe:start'', p) = Inr r"
  "on TstycheDotReporter_handlers r (''describe:end'', p) = Inr r"
  "on TstycheDotReporter_handlers r (''test:pass'', p) = Inr (writeDotChar r ''.'')"
  "on TstycheDotReporter_handlers r (''test:fail'', p) = Inr (writeDotChar r ''F'')"
  "on TstycheDotReporter_handlers r (''run:end'', p) = Inr (dot_onRunEnd r p)"
  by (simp_all add: on_lifecycle TstycheDotReporter_handlers_def base_onFileStart_def
      base_onDescribeStart_def base_onDescribeEnd_def dot_onTestPass_def dot_onTestFail_def)

lemma mocha_on_lifecycle:
  "on TstycheMochaReporter_handlers r (''run:start'', p) = Inr (mocha_onRunStart r p)"
  "on TstycheMochaReporter_handlers r (''project:uses'', p) =
     Inr (base_onProjectUses base_beforePrintCompilerVersion r p)"
  "on TstycheMochaReporter_handlers r (''file:start'', p) = Inr (mocha_onFileStart r p)"
  "on TstycheMochaReporter_handlers r (''describe:start'', p) = Inr (mocha_onDescribeStart r p)"
  "on TstycheMochaReporter_handlers r (''describe:end'', p) = Inr (mocha_onDescribeEnd r p)"
  "on TstycheMochaReporter_handlers r (''test:pass'', p) = Inr (recordTest r p True)"
  "on TstycheMochaReporter_handlers r (''test:fail'', p) = Inr (recordTest r p False)"
  "on TstycheMochaReporter_handlers r (''run:end'', p) = Inr (mocha_onRunEnd r p)"
  by (simp_all add: on_lifecycle TstycheMochaReporter_handlers_def mocha_onTestPass_def
      mocha_onTestFail_def)

lemma dot_on_non_implemented:
  "k \<in> set non_implemented_kinds \<Longrightarrow> on TstycheDotReporter_handlers r (k, p) = Inr r"
  by (simp add: on_non_implemented_kind TstycheDotReporter_handlers_def
      base_onNonImplementedEvent_def)

lemma mocha_on_non_implemented:
  "k \<in> set non_implemented_kinds \<Longrightarrow> on TstycheMochaReporter_handlers r (k, p) = Inr r"
  by (simp add: on_non_implemented_kind TstycheMochaReporter_handlers_def
      base_onNonImplementedEvent_def)

lemma lifecycle_cases:
  assumes "k \<in> set lifecycle_kinds"
    and "P ''run:start''" and "P ''project:uses''" and "P ''file:start''"
    and "P ''describe:start''" and "P ''describe:end''" and "P ''test:pass''"
    and "P ''test:fail''" and "P ''run:end''"
  shows "P k"
proof -
  from assms(1) have "k = ''run:start'' \<or> k = ''project:uses'' \<or> k = ''file:start''
    \<or> k = ''describe:start'' \<or> k = ''describe:end'' \<or> k = ''test:pass''
    \<or> k = ''test:fail'' \<or> k = ''run:end''"
    by (simp add: lifecycle_kinds_def)
  then show ?thesis
    using assms(2-) by (elim disjE) (simp_all only:)
qed

lemma dot_returns:
  assumes "k \<in> set known_kinds" and "payload_ok (k, p)"
  shows "\<exists>r'. on TstycheDotReporter_handlers r (k, p) = Inr r'"
proof -
  consider "k \<in> set error_kinds" | "k \<in> set lifecycle_kinds" | "k \<in> set non_implemented_kinds"
    using assms(1) by (auto simp add: known_kinds_def)
  then show ?thesis
  proof cases
    case 1
    with assms(2) show ?thesis
      by (auto simp add: dot_on_error payload_ok_def)
  next
    case 2
    then show ?thesis
      by (rule lifecycle_cases) (simp_all add: dot_on_lifecycle)
  next
    case 3
    then show ?thesis by (simp add: dot_on_non_implemented)
  qed
qed

lemma mocha_returns:
  assumes "k \<in> set known_kinds" and "payload_ok (k, p)"
  shows "\<exists>r'. on TstycheMochaReporter_handlers r (k, p) = Inr r'"
proof -
  consider "k \<in> set error_kinds" | "k \<in> set lifecycle_kinds" | "k \<in> set non_implemented_kinds"
    using assms(1) by (auto simp add: known_kinds_def)
  then show ?thesis
  proof cases
    case 1
    with assms(2) show ?thesis
      by (auto simp add: mocha_on_error payload_ok_def)
  next
    case 2
    then show ?thesis
      by (rule lifecycle_cases) (simp_all add: mocha_on_lifecycle)
  next
    case 3
    then show ?thesis by (simp add: mocha_on_non_implemented)
  qed
qed

text \<open>
  C2: for the dot reporter and for the mocha reporter, dispatching an event whose payload is
  well formed throws exactly when the kind of the event is outside the enumeration; the
  exception is then the one of \<^verbatim>\<open>assertTypeIsNever\<close>. For every kind of the
  enumeration the dispatch returns.
\<close>

theorem on_throws_iff_unknown_kind:
  assumes "payload_ok ev"
  shows "((\<exists>e. on TstycheDotReporter_handlers d ev = Inl e) \<longleftrightarrow> fst ev \<notin> set known_kinds)
       \<and> ((\<exists>e. on TstycheMochaReporter_handlers m ev = Inl e) \<longleftrightarrow> fst ev \<notin> set known_kinds)
       \<and> (fst ev \<notin> set known_kinds \<longrightarrow>
            on TstycheDotReporter_handlers d ev = Inl (Error ''Expected value to not exist'')
          \<and> on TstycheMochaReporter_handlers m ev = Inl (Error ''Expected value to not exist''))"
proof (cases ev)
  case (Pair k p)
  show ?thesis
  proof (cases "k \<in> set known_kinds")
    case True
    from dot_returns [OF True, of p d] mocha_returns [OF True, of p m] assms Pair True
    show ?thesis by auto
  next
    case False
    then show ?thesis using Pair by (simp add: on_unknown_kind)
  qed
qed

theorem on_throws_iff_unknown_kind_witness:
  "payload_ok (error_event ''test:error'' []) \<and> payload_ok (''test:todo'', empty_payload)
   \<and> payload_ok (''test:retry'', empty_payload)
   \<and> on TstycheDotReporter_handlers (new_TstycheDotReporter cli_format)
        (error_event ''test:error'' []) = Inr (new_TstycheDotReporter cli_format)
   \<and> on TstycheMochaReporter_handlers (new_TstycheMochaReporter cli_format)
        (''test:todo'', empty_payload) = Inr (new_TstycheMochaReporter cli_format)
   \<and> on TstycheDotReporter_handlers (new_TstycheDotReporter cli_format)
        (''test:retry'', empty_payload) = Inl (Error ''Expected value to not exist'')
   \<and> on TstycheMochaReporter_handlers (new_TstycheMochaReporter cli_format)
        (''test:retry'', empty_payload) = Inl (Error ''Expected value to not exist'')"
proof -
  have ok: "payload_ok (error_event ''test:error'' [])" "payload_ok (''test:todo'', empty_payload)"
    "payload_ok (''test:retry'', empty_payload)"
    by (simp_all add: payload_ok_def error_event_def empty_payload_def error_kinds_def)
  have unk: "fst (''test:retry'', empty_payload) \<notin> set known_kinds"
    by (simp add: known_kinds_def error_kinds_def lifecycle_kinds_def non_implemented_kinds_def)
  have a: "on TstycheDotReporter_handlers (new_TstycheDotReporter cli_format)
        (''test:retry'', empty_payload) = Inl (Error ''Expected value to not exist'')
      \<and> on TstycheMochaReporter_handlers (new_TstycheMochaReporter cli_format)
        (''test:retry'', empty_payload) = Inl (Error ''Expected value to not exist'')"
    using on_throws_iff_unknown_kind [OF ok(3), of "new_TstycheDotReporter cli_format"
        "new_TstycheMochaReporter cli_format"] unk
    by blast
  have b: "on TstycheDotReporter_handlers (new_TstycheDotReporter cli_format)
        (error_event ''test:error'' []) = Inr (new_TstycheDotReporter cli_format)"
    by (simp add: error_event_def dot_on_error error_kinds_def empty_payload_def flushDots_step
        new_TstycheDotReporter_def)
  have c: "on TstycheMochaReporter_handlers (new_TstycheMochaReporter cli_format)
        (''test:todo'', empty_payload) = Inr (new_TstycheMochaReporter cli_format)"
    by (simp add: mocha_on_non_implemented non_implemented_kinds_def)
  show ?thesis using ok a b c by simp
qed

section \<open>Reporter state and the version header\<close>

lemma mocha_handler_fields:
  "currentCompilerVersion (mocha_onFileStart m p) = currentCompilerVersion m"
  "lastShownCompilerVersion (mocha_onFileStart m p) = lastShownCompilerVersion m"
  "currentCompilerVersion (mocha_onDescribeStart m p) = currentCompilerVersion m"
  "lastShownCompilerVersion (mocha_onDescribeStart m p) = lastShownCompilerVersion m"
  "currentCompilerVersion (mocha_onDescribeEnd m p) = currentCompilerVersion m"
  "lastShownCompilerVersion (mocha_onDescribeEnd m p) = lastShownCompilerVersion m"
  "currentCompilerVersion (recordTest m p b) = currentCompilerVersion m"
  "lastShownCompilerVersion (recordTest m p b) = lastShownCompilerVersion m"
  "currentCompilerVersion (mocha_onRunEnd m p) = currentCompilerVersion m"
  "lastShownCompilerVersion (mocha_onRunEnd m p) = lastShownCompilerVersion m"
  by (simp_all add: mocha_onFileStart_def mocha_onDescribeStart_def mocha_onDescribeEnd_def
      recordTest_def printTest_def printDescribeStart_def mocha_onRunEnd_def console_log_def
      Let_def)

lemma dot_onRunEnd_fields:
  "currentCompilerVersion (dot_onRunEnd d p) = currentCompilerVersion d"
  "lastShownCompilerVersion (dot_onRunEnd d p) = lastShownCompilerVersion d"
  by (simp_all add: dot_onRunEnd_def console_log_def flushDots_fields)

lemma console_log_fields:
  "currentCompilerVersion (console_log s r) = currentCompilerVersion r"
  "lastShownCompilerVersion (console_log s r) = lastShownCompilerVersion r"
  "format (console_log s r) = format r"
  "console (console_log s r) = console r @ [ConsoleLog s]"
  by (simp_all add: console_log_def)

lemma dot_frame:
  assumes "payload_ok (k, p)" and "k \<in> set known_kinds"
    and "k \<noteq> ''run:start''" and "k \<noteq> ''project:uses''"
  shows "\<exists>d'. on TstycheDotReporter_handlers d (k, p) = Inr d'
           \<and> currentCompilerVersion d' = currentCompilerVersion d
           \<and> lastShownCompilerVersion d' = lastShownCompilerVersion d"
proof -
  consider "k \<in> set error_kinds" | "k \<in> set lifecycle_kinds" | "k \<in> set non_implemented_kinds"
    using assms(2) by (auto simp add: known_kinds_def)
  then show ?thesis
  proof cases
    case 1
    with assms(1) show ?thesis
      by (auto simp add: dot_on_error payload_ok_def printErrors_loop_fields flushDots_fields)
  next
    case 2
    then have "k \<noteq> ''run:start'' \<longrightarrow> k \<noteq> ''project:uses'' \<longrightarrow>
        (\<exists>d'. on TstycheDotReporter_handlers d (k, p) = Inr d'
           \<and> currentCompilerVersion d' = currentCompilerVersion d
           \<and> lastShownCompilerVersion d' = lastShownCompilerVersion d)"
      by (rule lifecycle_cases)
         (simp_all add: dot_on_lifecycle writeDotChar_fields dot_onRunEnd_fields)
    with assms(3,4) show ?thesis by blast
  next
    case 3
    then show ?thesis by (simp add: dot_on_non_implemented)
  qed
qed

lemma mocha_frame:
  assumes "payload_ok (k, p)" and "k \<in> set known_kinds"
    and "k \<noteq> ''run:start''" and "k \<noteq> ''project:uses''"
  shows "\<exists>m'. on TstycheMochaReporter_handlers m (k, p) = Inr m'
           \<and> currentCompilerVersion m' = currentCompilerVersion m
           \<and> lastShownCompilerVersion m' = lastShownCompilerVersion m"
proof -
  consider "k \<in> set error_kinds" | "k \<in> set lifecycle_kinds" | "k \<in> set non_implemented_kinds"
    using assms(2) by (auto simp add: known_kinds_def)
  then show ?thesis
  proof cases
    case 1
    with assms(1) show ?thesis
      by (auto simp add: mocha_on_error payload_ok_def printErrors_loop_fields console_log_fields)
  next
    case 2
    then have "k \<noteq> ''run:start'' \<longrightarrow> k \<noteq> ''project:uses'' \<longrightarrow>
        (\<exists>m'. on TstycheMochaReporter_handlers m (k, p) = Inr m'
           \<and> currentCompilerVersion m' = currentCompilerVersion m
           \<and> lastShownCompilerVersion m' = lastShownCompilerVersion m)"
      by (rule lifecycle_cases) (simp_all add: mocha_on_lifecycle mocha_handler_fields)
    with assms(3,4) show ?thesis by blast
  next
    case 3
    then show ?thesis by (simp add: mocha_on_non_implemented)
  qed
qed

lemma base_on_error:
  assumes "k \<in> set error_kinds"
  shows "on TstycheBaseReporter_handlers r (k, p) =
     (case diagnostics p of
        None \<Rightarrow> Inl (TypeError ''payload.diagnostics is not iterable'')
      | Some ds \<Rightarrow> Inr (printErrors_loop ds r))"
  using assms
  by (simp add: on_error_kind TstycheBaseReporter_handlers_def base_onError_def printErrors_def)

lemma base_on_lifecycle:
  "on TstycheBaseReporter_handlers r (''run:start'', p) = Inr (base_onRunStart r p)"
  "on TstycheBaseReporter_handlers r (''project:uses'', p) =
     Inr (base_onProjectUses base_beforePrintCompilerVersion r p)"
  "on TstycheBaseReporter_handlers r (''file:start'', p) = Inr r"
  "on TstycheBaseReporter_handlers r (''describe:start'', p) = Inr r"
  "on TstycheBaseReporter_handlers r (''describe:end'', p) = Inr r"
  "on TstycheBaseReporter_handlers r (''test:pass'', p) =
     Inl (Error ''_onTestPass() must be implemented by subclass'')"
  "on TstycheBaseReporter_handlers r (''test:fail'', p) =
     Inl (Error ''_onTestFail() must be implemented by subclass'')"
  "on TstycheBaseReporter_handlers r (''run:end'', p) =
     Inl (Error ''_onRunEnd() must be implemented by subclass'')"
  by (simp_all add: on_lifecycle TstycheBaseReporter_handlers_def base_onFileStart_def
      base_onDescribeStart_def base_onDescribeEnd_def base_onTestPass_def base_onTestFail_def
      base_onRunEnd_def)

lemma base_frame:
  assumes "k \<noteq> ''run:start''" and "k \<noteq> ''project:uses''"
    and "on TstycheBaseReporter_handlers b (k, p) = Inr b'"
  shows "currentCompilerVersion b' = currentCompilerVersion b
       \<and> lastShownCompilerVersion b' = lastShownCompilerVersion b"
proof (cases "k \<in> set known_kinds")
  case False
  with assms(3) show ?thesis by (simp add: on_unknown_kind)
next
  case True
  then consider "k \<in> set error_kinds" | "k \<in> set lifecycle_kinds"
    | "k \<in> set non_implemented_kinds"
    by (auto simp add: known_kinds_def)
  then show ?thesis
  proof cases
    case 1
    with assms(3) show ?thesis
      by (auto simp add: base_on_error printErrors_loop_fields split: option.splits)
  next
    case 2
    then have "\<forall>b'. k \<noteq> ''run:start'' \<longrightarrow> k \<noteq> ''project:uses'' \<longrightarrow>
        on TstycheBaseReporter_handlers b (k, p) = Inr b' \<longrightarrow>
        currentCompilerVersion b' = currentCompilerVersion b
        \<and> lastShownCompilerVersion b' = lastShownCompilerVersion b"
      by (rule lifecycle_cases) (auto simp add: base_on_lifecycle)
    with assms show ?thesis by blast
  next
    case 3
    with assms(3) show ?thesis
      by (auto simp add: on_non_implemented_kind TstycheBaseReporter_handlers_def
          base_onNonImplementedEvent_def)
  qed
qed

lemma run_start_resets:
  "(\<exists>d'. on TstycheDotReporter_handlers d (''run:start'', q) = Inr d'
        \<and> currentCompilerVersion d' = None \<and> lastShownCompilerVersion d' = None)
   \<and> (\<exists>m'. on TstycheMochaReporter_handlers m (''run:start'', q) = Inr m'
        \<and> currentCompilerVersion m' = None \<and> lastShownCompilerVersion m' = None)"
  by (simp add: dot_on_lifecycle mocha_on_lifecycle dot_onRunStart_def mocha_onRunStart_def
      base_onRunStart_def)

text \<open>
  C9: the fields \<^verbatim>\<open>currentCompilerVersion\<close> and \<^verbatim>\<open>lastShownCompilerVersion\<close> change
  only on \<^verbatim>\<open>project:uses\<close> and on \<^verbatim>\<open>run:start\<close> (which sets both to absent). For
  every other kind of the enumeration, with a well-formed payload, the dot and the mocha
  reporter return with both fields unchanged; whenever the base class returns, both fields
  are unchanged too.
\<close>

theorem compiler_version_fields_frame:
  assumes "payload_ok ev" and "fst ev \<in> set known_kinds"
    and "fst ev \<noteq> ''run:start''" and "fst ev \<noteq> ''project:uses''"
  shows "(\<exists>d'. on TstycheDotReporter_handlers d ev = Inr d'
             \<and> currentCompilerVersion d' = currentCompilerVersion d
             \<and> lastShownCompilerVersion d' = lastShownCompilerVersion d)
       \<and> (\<exists>m'. on TstycheMochaReporter_handlers m ev = Inr m'
             \<and> currentCompilerVersion m' = currentCompilerVersion m
             \<and> lastShownCompilerVersion m' = lastShownCompilerVersion m)
       \<and> (\<forall>b'. on TstycheBaseReporter_handlers b ev = Inr b'
             \<longrightarrow> currentCompilerVersion b' = currentCompilerVersion b
               \<and> lastShownCompilerVersion b' = lastShownCompilerVersion b)
       \<and> (\<exists>d'. on TstycheDotReporter_handlers d (''run:start'', q) = Inr d'
             \<and> currentCompilerVersion d' = None \<and> lastShownCompilerVersion d' = None)
       \<and> (\<exists>m'. on TstycheMochaReporter_handlers m (''run:start'', q) = Inr m'
             \<and> currentCompilerVersion m' = None \<and> lastShownCompilerVersion m' = None)"
proof (cases ev)
  case (Pair k p)
  with assms have h: "payload_ok (k, p)" "k \<in> set known_kinds" "k \<noteq> ''run:start''"
    "k \<noteq> ''project:uses''"
    by simp_all
  show ?thesis
    unfolding Pair
    using dot_frame [OF h, of d] mocha_frame [OF h, of m] base_frame [OF h(3,4), of b]
      run_start_resets [of d q m]
    by blast
qed

theorem compiler_version_fields_frame_witness:
  "payload_ok (test_event ''test:pass'' ''x'')
   \<and> fst (test_event ''test:pass'' ''x'') \<in> set known_kinds
   \<and> fst (test_event ''test:pass'' ''x'') \<noteq> ''run:start''
   \<and> fst (test_event ''test:pass'' ''x'') \<noteq> ''project:uses''
   \<and> (\<exists>d'. on TstycheDotReporter_handlers
              ((new_TstycheDotReporter cli_format)\<lparr>currentCompilerVersion := Some ''5.4'',
                                                   lastShownCompilerVersion := Some ''5.4''\<rparr>)
              (test_event ''test:pass'' ''x'') = Inr d'
          \<and> currentCompilerVersion d' = Some ''5.4''
          \<and> lastShownCompilerVersion d' = Some ''5.4'')
   \<and> (\<exists>m'. on TstycheMochaReporter_handlers
              ((new_TstycheMochaReporter cli_format)\<lparr>currentCompilerVersion := Some ''5.4'',
                                                     lastShownCompilerVersion := Some ''5.4''\<rparr>)
              (test_event ''test:pass'' ''x'') = Inr m'
          \<and> currentCompilerVersion m' = Some ''5.4''
          \<and> lastShownCompilerVersion m' = Some ''5.4'')"
proof -
  have h: "payload_ok (test_event ''test:pass'' ''x'')"
    "fst (test_event ''test:pass'' ''x'') \<in> set known_kinds"
    "fst (test_event ''test:pass'' ''x'') \<noteq> ''run:start''"
    "fst (test_event ''test:pass'' ''x'') \<noteq> ''project:uses''"
    by (simp_all add: payload_ok_def test_event_def known_kinds_def error_kinds_def
        lifecycle_kinds_def)
  show ?thesis
    using compiler_version_fields_frame [OF h,
        of "(new_TstycheDotReporter cli_format)\<lparr>currentCompilerVersion := Some ''5.4'',
                                                   lastShownCompilerVersion := Some ''5.4''\<rparr>"
           "(new_TstycheMochaReporter cli_format)\<lparr>currentCompilerVersion := Some ''5.4'',
                                                     lastShownCompilerVersion := Some ''5.4''\<rparr>"
           "new_TstycheDotReporter cli_format"] h
    by simp
qed

lemma dot_project_uses:
  "on TstycheDotReporter_handlers d (''project:uses'', p) =
     Inr (if compilerVersion p \<noteq> lastShownCompilerVersion d
          then (flushDots d)\<lparr>currentCompilerVersion := compilerVersion p,
                 lastShownCompilerVersion := compilerVersion p,
                 console := console (flushDots d) @
                            [version_header (format d) (compilerVersion p)]\<rparr>
          else d\<lparr>currentCompilerVersion := compilerVersion p\<rparr>)"
  by (simp add: dot_on_lifecycle base_onProjectUses_def dot_beforePrintCompilerVersion_def
      printCompilerVersion_def console_log_def version_header_def flushDots_step Let_def)

lemma mocha_project_uses:
  "on TstycheMochaReporter_handlers m (''project:uses'', p) =
     Inr (if compilerVersion p \<noteq> lastShownCompilerVersion m
          then m\<lparr>currentCompilerVersion := compilerVersion p,
                 lastShownCompilerVersion := compilerVersion p,
                 console := console m @ [version_header (format m) (compilerVersion p)]\<rparr>
          else m\<lparr>currentCompilerVersion := compilerVersion p\<rparr>)"
  by (simp add: mocha_on_lifecycle base_onProjectUses_def base_beforePrintCompilerVersion_def
      printCompilerVersion_def console_log_def version_header_def Let_def)

lemma dot_five_version_events:
  assumes "V1 \<noteq> V2"
  shows "\<exists>d'. dispatch_all TstycheDotReporter_handlers d
            [(''run:start'', q), project_uses V1, project_uses V1, project_uses V2,
             project_uses V2, project_uses V1] = Inr d'
          \<and> console d' = console d @
              [version_header (format d) (Some V1), version_header (format d) (Some V2),
               version_header (format d) (Some V1)]"
  using assms
  by (simp add: project_uses_def empty_payload_def dot_project_uses dot_on_lifecycle(1)
      dot_onRunStart_def base_onRunStart_def flushDots_step)

lemma mocha_five_version_events:
  assumes "V1 \<noteq> V2"
  shows "\<exists>m'. dispatch_all TstycheMochaReporter_handlers m
            [(''run:start'', q), project_uses V1, project_uses V1, project_uses V2,
             project_uses V2, project_uses V1] = Inr m'
          \<and> console m' = console m @
              [version_header (format m) (Some V1), version_header (format m) (Some V2),
               version_header (format m) (Some V1)]"
  using assms
  by (simp add: project_uses_def empty_payload_def mocha_project_uses mocha_on_lifecycle(1)
      mocha_onRunStart_def base_onRunStart_def)

text \<open>
  C1: on \<^verbatim>\<open>project:uses\<close> the version header is printed if and only if the compiler
  version of the event differs from the last-shown version, and afterwards the last-shown
  version is the version of the event; \<^verbatim>\<open>run:start\<close> makes the last-shown version
  absent and prints nothing. So the events \<^verbatim>\<open>run:start\<close> and then the versions V1, V1,
  V2, V2, V1 (with V1 and V2 different) print exactly three headers, for V1, V2, V1 in this
  order, in both reporters.
\<close>

theorem compiler_version_header_dedup:
  "(\<exists>d'. on TstycheDotReporter_handlers d (''project:uses'', p) = Inr d'
        \<and> currentCompilerVersion d' = compilerVersion p
        \<and> lastShownCompilerVersion d' = compilerVersion p
        \<and> console d' =
            (if compilerVersion p \<noteq> lastShownCompilerVersion d
             then console (flushDots d) @ [version_header (format d) (compilerVersion p)]
             else console d))
   \<and> (\<exists>m'. on TstycheMochaReporter_handlers m (''project:uses'', p) = Inr m'
        \<and> currentCompilerVersion m' = compilerVersion p
        \<and> lastShownCompilerVersion m' = compilerVersion p
        \<and> console m' =
            (if compilerVersion p \<noteq> lastShownCompilerVersion m
             then console m @ [version_header (format m) (compilerVersion p)]
             else console m))
   \<and> (\<exists>d'. on TstycheDotReporter_handlers d (''run:start'', q) = Inr d'
        \<and> lastShownCompilerVersion d' = None \<and> console d' = console d)
   \<and> (\<exists>m'. on TstycheMochaReporter_handlers m (''run:start'', q) = Inr m'
        \<and> lastShownCompilerVersion m' = None \<and> console m' = console m)
   \<and> (V1 \<noteq> V2 \<longrightarrow>
        (\<exists>d'. dispatch_all TstycheDotReporter_handlers d
            [(''run:start'', q), project_uses V1, project_uses V1, project_uses V2,
             project_uses V2, project_uses V1] = Inr d'
          \<and> console d' = console d @
              [version_header (format d) (Some V1), version_header (format d) (Some V2),
               version_header (format d) (Some V1)])
      \<and> (\<exists>m'. dispatch_all TstycheMochaReporter_handlers m
            [(''run:start'', q), project_uses V1, project_uses V1, project_uses V2,
             project_uses V2, project_uses V1] = Inr m'
          \<and> console m' = console m @
              [version_header (format m) (Some V1), version_header (format m) (Some V2),
               version_header (format m) (Some V1)]))"
proof (intro conjI impI)
  show "\<exists>d'. on TstycheDotReporter_handlers d (''project:uses'', p) = Inr d'
        \<and> currentCompilerVersion d' = compilerVersion p
        \<and> lastShownCompilerVersion d' = compilerVersion p
        \<and> console d' =
            (if compilerVersion p \<noteq> lastShownCompilerVersion d
             then console (flushDots d) @ [version_header (format d) (compilerVersion p)]
             else console d)"
    by (simp add: dot_project_uses)
  show "\<exists>m'. on TstycheMochaReporter_handlers m (''project:uses'', p) = Inr m'
        \<and> currentCompilerVersion m' = compilerVersion p
        \<and> lastShownCompilerVersion m' = compilerVersion p
        \<and> console m' =
            (if compilerVersion p \<noteq> lastShownCompilerVersion m
             then console m @ [version_header (format m) (compilerVersion p)]
             else console m)"
    by (simp add: mocha_project_uses)
  show "\<exists>d'. on TstycheDotReporter_handlers d (''run:start'', q) = Inr d'
        \<and> lastShownCompilerVersion d' = None \<and> console d' = console d"
    by (simp add: dot_on_lifecycle dot_onRunStart_def base_onRunStart_def)
  show "\<exists>m'. on TstycheMochaReporter_handlers m (''run:start'', q) = Inr m'
        \<and> lastShownCompilerVersion m' = None \<and> console m' = console m"
    by (simp add: mocha_on_lifecycle mocha_onRunStart_def base_onRunStart_def)
next
  assume ne: "V1 \<noteq> V2"
  show "\<exists>d'. dispatch_all TstycheDotReporter_handlers d
            [(''run:start'', q), project_uses V1, project_uses V1, project_uses V2,
             project_uses V2, project_uses V1] = Inr d'
          \<and> console d' = console d @
              [version_header (format d) (Some V1), version_header (format d) (Some V2),
               version_header (format d) (Some V1)]"
    using ne by (rule dot_five_version_events)
  show "\<exists>m'. dispatch_all TstycheMochaReporter_handlers m
            [(''run:start'', q), project_uses V1, project_uses V1, project_uses V2,
             project_uses V2, project_uses V1] = Inr m'
          \<and> console m' = console m @
              [version_header (format m) (Some V1), version_header (format m) (Some V2),
               version_header (format m) (Some V1)]"
    using ne by (rule mocha_five_version_events)
qed

theorem compiler_version_header_dedup_witness:
  "''5.4'' \<noteq> ''5.8''
   \<and> (\<exists>d'. dispatch_all TstycheDotReporter_handlers (new_TstycheDotReporter markdown_format)
            [(''run:start'', empty_payload), project_uses ''5.4'', project_uses ''5.4'',
             project_uses ''5.8'', project_uses ''5.8'', project_uses ''5.4''] = Inr d'
          \<and> console d' =
              [ConsoleLog ''\<newline># uses TypeScript 5.4 with ./tsconfig.json\<newline>'',
               ConsoleLog ''\<newline># uses TypeScript 5.8 with ./tsconfig.json\<newline>'',
               ConsoleLog ''\<newline># uses TypeScript 5.4 with ./tsconfig.json\<newline>''])
   \<and> (\<exists>m'. dispatch_all TstycheMochaReporter_handlers (new_TstycheMochaReporter markdown_format)
            [(''run:start'', empty_payload), project_uses ''5.4'', project_uses ''5.4'',
             project_uses ''5.8'', project_uses ''5.8'', project_uses ''5.4''] = Inr m'
          \<and> console m' =
              [ConsoleLog ''\<newline># uses TypeScript 5.4 with ./tsconfig.json\<newline>'',
               ConsoleLog ''\<newline># uses TypeScript 5.8 with ./tsconfig.json\<newline>'',
               ConsoleLog ''\<newline># uses TypeScript 5.4 with ./tsconfig.json\<newline>''])"
proof -
  have ne: "''5.4'' \<noteq> ''5.8''" by simp
  have h: "version_header markdown_format (Some ''5.4'') =
        ConsoleLog ''\<newline># uses TypeScript 5.4 with ./tsconfig.json\<newline>''"
      "version_header markdown_format (Some ''5.8'') =
        ConsoleLog ''\<newline># uses TypeScript 5.8 with ./tsconfig.json\<newline>''"
    by (simp_all add: version_header_def markdown_format_def)
  have f: "format (new_TstycheDotReporter markdown_format) = markdown_format"
    "console (new_TstycheDotReporter markdown_format) = []"
    "format (new_TstycheMochaReporter markdown_format) = markdown_format"
    "console (new_TstycheMochaReporter markdown_format) = []"
    by (simp_all add: new_TstycheDotReporter_def new_TstycheMochaReporter_def)
  show ?thesis
    using compiler_version_header_dedup [of "new_TstycheDotReporter markdown_format"
        empty_payload "new_TstycheMochaReporter markdown_format" empty_payload "''5.4''" "''5.8''"]
      ne h f
    by simp
qed

section \<open>The describe stack of the mocha reporter\<close>

lemma recordTest_printTest:
  "\<exists>description. recordTest m p passed =
      printTest m description passed (length (currentDescribeStack m))"
  unfolding recordTest_def Let_def by (rule exI) (rule refl)

lemma printTest_cli:
  assumes "chalk (format m) = Some c" and "0 < ind"
  shows "printTest m description passed ind =
     m\<lparr>console := console m @
        [ConsoleLog (indent (format m)
           (if passed then gray c (success (logSymbols (format m)) @ '' '' @ description)
            else red c (error (logSymbols (format m)) @ '' '' @ description)) ind)]\<rparr>"
  using assms by (simp add: printTest_def console_log_def Let_def)

lemma recordTest_named:
  "recordTest m (snd (test_event k n)) passed =
     printTest m n passed (length (currentDescribeStack m))"
  by (simp add: recordTest_def test_event_def empty_payload_def Let_def)

lemma mocha_describe_start:
  "mocha_onDescribeStart m (snd (describe_start n)) =
     m\<lparr>currentDescribeStack := currentDescribeStack m @ [\<lparr>name = n\<rparr>],
       console := console m @
         [ConsoleLog (header (format m) n (if currentDescribeStack m = [] then 2 else 3))]\<rparr>"
  by (simp add: mocha_onDescribeStart_def describe_start_def empty_payload_def
      printDescribeStart_def console_log_def Let_def)

lemma mocha_describe_start_push:
  "\<exists>d. currentDescribeStack (mocha_onDescribeStart m p) = currentDescribeStack m @ [d]"
  by (simp add: mocha_onDescribeStart_def printDescribeStart_def console_log_def Let_def)

lemma mocha_nested_scenario:
  assumes "currentDescribeStack m = []" and "chalk (format m) = Some c"
  shows "dispatch_all TstycheMochaReporter_handlers m
       [describe_start A, describe_start B, describe_start C, test_event ''test:pass'' x,
        (''describe:end'', q), test_event ''test:fail'' y] =
     Inr (m\<lparr>currentDescribeStack := [\<lparr>name = A\<rparr>, \<lparr>name = B\<rparr>],
            console := console m @
              [ConsoleLog (header (format m) A 2),
               ConsoleLog (header (format m) B 3),
               ConsoleLog (header (format m) C 3),
               ConsoleLog (indent (format m)
                 (gray c (success (logSymbols (format m)) @ '' '' @ x)) 3),
               ConsoleLog (indent (format m)
                 (red c (error (logSymbols (format m)) @ '' '' @ y)) 2)]\<rparr>)"
proof -
  have ds: "\<And>r n. on TstycheMochaReporter_handlers r (describe_start n) =
      Inr (mocha_onDescribeStart r (snd (describe_start n)))"
    by (simp add: describe_start_def mocha_on_lifecycle)
  have tp: "\<And>r n. on TstycheMochaReporter_handlers r (test_event ''test:pass'' n) =
      Inr (recordTest r (snd (test_event ''test:pass'' n)) True)"
    by (simp add: test_event_def mocha_on_lifecycle)
  have tf: "\<And>r n. on TstycheMochaReporter_handlers r (test_event ''test:fail'' n) =
      Inr (recordTest r (snd (test_event ''test:fail'' n)) False)"
    by (simp add: test_event_def mocha_on_lifecycle)
  show ?thesis
    using assms
    by (simp add: ds tp tf mocha_on_lifecycle mocha_describe_start recordTest_named
        printTest_cli mocha_onDescribeEnd_def numeral_3_eq_3 numeral_2_eq_2)
qed

text \<open>
  C4: in the mocha reporter the indentation passed to \<^verbatim>\<open>#printTest\<close> for a
  \<^verbatim>\<open>test:pass\<close> or \<^verbatim>\<open>test:fail\<close> event is the depth of the describe stack; with
  a colorizer and a positive depth that value reaches the \<^verbatim>\<open>indent\<close> primitive.
  \<^verbatim>\<open>describe:start\<close> pushes one entry, \<^verbatim>\<open>describe:end\<close> pops the last one. From
  an empty stack, after the scopes A, B, C have started a test is printed with indentation
  3, and after C has ended the next test is printed with indentation 2.
\<close>

theorem test_indent_is_describe_stack_depth:
  "(k = ''test:pass'' \<or> k = ''test:fail'' \<longrightarrow>
      (\<exists>description. on TstycheMochaReporter_handlers m (k, p) =
         Inr (printTest m description (k = ''test:pass'') (length (currentDescribeStack m)))))
   \<and> (chalk (format m) = Some c \<and> 0 < ind \<longrightarrow>
        printTest m description passed ind =
          m\<lparr>console := console m @
            [ConsoleLog (indent (format m)
               (if passed then gray c (success (logSymbols (format m)) @ '' '' @ description)
                else red c (error (logSymbols (format m)) @ '' '' @ description)) ind)]\<rparr>)
   \<and> (\<exists>m' d. on TstycheMochaReporter_handlers m (''describe:start'', p) = Inr m'
          \<and> currentDescribeStack m' = currentDescribeStack m @ [d])
   \<and> (\<exists>m'. on TstycheMochaReporter_handlers m (''describe:end'', p) = Inr m'
          \<and> currentDescribeStack m' = butlast (currentDescribeStack m))
   \<and> (currentDescribeStack m = [] \<and> chalk (format m) = Some c \<longrightarrow>
        (\<exists>m'. dispatch_all TstycheMochaReporter_handlers m
            [describe_start A, describe_start B, describe_start C,
             test_event ''test:pass'' x, (''describe:end'', q), test_event ''test:fail'' y]
              = Inr m'
          \<and> console m' = console m @
              [ConsoleLog (header (format m) A 2),
               ConsoleLog (header (format m) B 3),
               ConsoleLog (header (format m) C 3),
               ConsoleLog (indent (format m)
                 (gray c (success (logSymbols (format m)) @ '' '' @ x)) 3),
               ConsoleLog (indent (format m)
                 (red c (error (logSymbols (format m)) @ '' '' @ y)) 2)]))"
proof (intro conjI impI)
  assume "k = ''test:pass'' \<or> k = ''test:fail''"
  then show "\<exists>description. on TstycheMochaReporter_handlers m (k, p) =
         Inr (printTest m description (k = ''test:pass'') (length (currentDescribeStack m)))"
    using recordTest_printTest [of m p True] recordTest_printTest [of m p False]
    by (auto simp add: mocha_on_lifecycle)
next
  assume "chalk (format m) = Some c \<and> 0 < ind"
  then show "printTest m description passed ind =
          m\<lparr>console := console m @
            [ConsoleLog (indent (format m)
               (if passed then gray c (success (logSymbols (format m)) @ '' '' @ description)
                else red c (error (logSymbols (format m)) @ '' '' @ description)) ind)]\<rparr>"
    by (simp add: printTest_cli)
next
  show "\<exists>m' d. on TstycheMochaReporter_handlers m (''describe:start'', p) = Inr m'
          \<and> currentDescribeStack m' = currentDescribeStack m @ [d]"
    using mocha_describe_start_push [of m p] by (simp add: mocha_on_lifecycle)
  show "\<exists>m'. on TstycheMochaReporter_handlers m (''describe:end'', p) = Inr m'
          \<and> currentDescribeStack m' = butlast (currentDescribeStack m)"
    by (simp add: mocha_on_lifecycle mocha_onDescribeEnd_def)
next
  assume a: "currentDescribeStack m = [] \<and> chalk (format m) = Some c"
  show "\<exists>m'. dispatch_all TstycheMochaReporter_handlers m
            [describe_start A, describe_start B, describe_start C,
             test_event ''test:pass'' x, (''describe:end'', q), test_event ''test:fail'' y]
              = Inr m'
          \<and> console m' = console m @
              [ConsoleLog (header (format m) A 2),
               ConsoleLog (header (format m) B 3),
               ConsoleLog (header (format m) C 3),
               ConsoleLog (indent (format m)
                 (gray c (success (logSymbols (format m)) @ '' '' @ x)) 3),
               ConsoleLog (indent (format m)
                 (red c (error (logSymbols (format m)) @ '' '' @ y)) 2)]"
    unfolding mocha_nested_scenario [OF conjunct1 [OF a] conjunct2 [OF a], of A B C x q y]
    by simp
qed

theorem test_indent_is_describe_stack_depth_witness:
  "currentDescribeStack (new_TstycheMochaReporter cli_format) = []
   \<and> chalk (format (new_TstycheMochaReporter cli_format)) =
       Some \<lparr>gray = (\<lambda>s. ''<gray>'' @ s @ ''</gray>''), red = (\<lambda>s. ''<red>'' @ s @ ''</red>'')\<rparr>
   \<and> (\<exists>m'. dispatch_all TstycheMochaReporter_handlers (new_TstycheMochaReporter cli_format)
            [describe_start ''A'', describe_start ''B'', describe_start ''C'',
             test_event ''test:pass'' ''x'', (''describe:end'', empty_payload),
             test_event ''test:fail'' ''y''] = Inr m'
          \<and> console m' =
              [ConsoleLog ''<bold>A</bold>'', ConsoleLog ''<bold>B</bold>'',
               ConsoleLog ''<bold>C</bold>'',
               ConsoleLog ''      <gray>ok x</gray>'',
               ConsoleLog ''    <red>not ok y</red>''])"
proof -
  have s: "currentDescribeStack (new_TstycheMochaReporter cli_format) = []"
    "console (new_TstycheMochaReporter cli_format) = []"
    "format (new_TstycheMochaReporter cli_format) = cli_format"
    by (simp_all add: new_TstycheMochaReporter_def)
  have c: "chalk cli_format =
       Some \<lparr>gray = (\<lambda>s. ''<gray>'' @ s @ ''</gray>''), red = (\<lambda>s. ''<red>'' @ s @ ''</red>'')\<rparr>"
    by (simp add: cli_format_def)
  have f: "header cli_format = (\<lambda>t level. ''<bold>'' @ t @ ''</bold>'')"
    "indent cli_format = (\<lambda>t depth. replicate (2 * depth) (CHR '' '') @ t)"
    "logSymbols cli_format = \<lparr>success = ''ok'', error = ''not ok''\<rparr>"
    by (simp_all add: cli_format_def)
  show ?thesis
    using test_indent_is_describe_stack_depth [of _ "new_TstycheMochaReporter cli_format" _
        "\<lparr>gray = (\<lambda>s. ''<gray>'' @ s @ ''</gray>''), red = (\<lambda>s. ''<red>'' @ s @ ''</red>'')\<rparr>"
        _ _ _ "''A''" "''B''" "''C''" "''x''" empty_payload "''y''"] s c f
    by (simp add: eval_nat_numeral)
qed

section \<open>Diagnostic formatter: the category suffix\<close>

text \<open>
  C7, as stated, fails: with a non-empty related list the lines of the related entries
  follow the category suffix, so the output does not end with the suffix.
\<close>

theorem category_suffix_not_last_counterexample:
  "diag_category (Diagnostic (Scalar ''a'') None (Some ''error'')
       (Some [Diagnostic (Scalar ''b'') None None None])) = Some ''error''
   \<and> formatDiagnostic (Diagnostic (Scalar ''a'') None (Some ''error'')
       (Some [Diagnostic (Scalar ''b'') None None None])) = ''a [error]\<newline>  b''
   \<and> \<not> suffix '' [error]''
       (formatDiagnostic (Diagnostic (Scalar ''a'') None (Some ''error'')
          (Some [Diagnostic (Scalar ''b'') None None None])))"
  by (simp add: suffix_Cons)

text \<open>
  C7, amended: for a diagnostic with a non-empty category the suffix \<^verbatim>\<open> [category]\<close>
  ends the diagnostic's own text: the output is the output of the same diagnostic without
  category and related entries, then the suffix, then (only for a non-empty related list) a
  line break and the related entries. The output ends with the suffix when the related list
  is absent or empty.
\<close>

theorem category_suffix_ends_primary_text:
  assumes "c \<noteq> []"
  shows "formatDiagnostic (Diagnostic t cd (Some c) rel) =
           formatDiagnostic (Diagnostic t cd None None) @ '' ['' @ c @ '']'' @
           (case rel of
              None \<Rightarrow> []
            | Some rs \<Rightarrow>
                if rs = [] then []
                else ''\<newline>'' @
                     join ''\<newline>'' (map (\<lambda>related. ''  '' @ formatDiagnostic related) rs))
       \<and> (rel = None \<or> rel = Some [] \<longrightarrow>
            suffix ('' ['' @ c @ '']'') (formatDiagnostic (Diagnostic t cd (Some c) rel)))"
proof
  show eq: "formatDiagnostic (Diagnostic t cd (Some c) rel) =
           formatDiagnostic (Diagnostic t cd None None) @ '' ['' @ c @ '']'' @
           (case rel of
              None \<Rightarrow> []
            | Some rs \<Rightarrow>
                if rs = [] then []
                else ''\<newline>'' @
                     join ''\<newline>'' (map (\<lambda>related. ''  '' @ formatDiagnostic related) rs))"
    using assms by (cases rel) (simp_all add: Let_def)
  show "rel = None \<or> rel = Some [] \<longrightarrow>
            suffix ('' ['' @ c @ '']'') (formatDiagnostic (Diagnostic t cd (Some c) rel))"
  proof
    assume "rel = None \<or> rel = Some []"
    then have "formatDiagnostic (Diagnostic t cd (Some c) rel) =
        formatDiagnostic (Diagnostic t cd None None) @ ('' ['' @ c @ '']'')"
      unfolding eq by auto
    then show "suffix ('' ['' @ c @ '']'') (formatDiagnostic (Diagnostic t cd (Some c) rel))"
      by (simp only: suffix_def) blast
  qed
qed

theorem category_suffix_ends_primary_text_witness:
  "''error'' \<noteq> []
   \<and> formatDiagnostic (Diagnostic (Scalar ''bad type'') (Some ''E1'') (Some ''error'')
       (Some [Diagnostic (Scalar ''context'') None None None]))
     = ''bad type (E1) [error]\<newline>  context''
   \<and> suffix '' [error]''
       (formatDiagnostic (Diagnostic (Scalar ''bad type'') (Some ''E1'') (Some ''error'') None))"
proof -
  have ne: "''error'' \<noteq> []" by simp
  have a: "formatDiagnostic (Diagnostic (Scalar ''bad type'') (Some ''E1'') (Some ''error'')
       (Some [Diagnostic (Scalar ''context'') None None None]))
     = formatDiagnostic (Diagnostic (Scalar ''bad type'') (Some ''E1'') None None) @
       '' ['' @ ''error'' @ '']'' @ ''\<newline>'' @
       join ''\<newline>'' (map (\<lambda>related. ''  '' @ formatDiagnostic related)
         [Diagnostic (Scalar ''context'') None None None])"
    using category_suffix_ends_primary_text [OF ne, of "Scalar ''bad type''" "Some ''E1''"
        "Some [Diagnostic (Scalar ''context'') None None None]"]
    by simp
  have b: "suffix ('' ['' @ ''error'' @ '']'')
       (formatDiagnostic (Diagnostic (Scalar ''bad type'') (Some ''E1'') (Some ''error'') None))"
    using category_suffix_ends_primary_text [OF ne, of "Scalar ''bad type''" "Some ''E1''" None]
    by blast
  have c: "formatDiagnostic (Diagnostic (Scalar ''bad type'') (Some ''E1'') None None)
      = ''bad type (E1)''"
    by simp
  have d: "join ''\<newline>'' (map (\<lambda>related. ''  '' @ formatDiagnostic related)
         [Diagnostic (Scalar ''context'') None None None]) = ''  context''"
    by simp
  from b have b': "suffix '' [error]''
       (formatDiagnostic (Diagnostic (Scalar ''bad type'') (Some ''E1'') (Some ''error'') None))"
    by simp
  show ?thesis
    using ne b' by (simp only: a c d) simp
qed

section \<open>The marks of the dot reporter\<close>

lemma marks_append: "marks (xs @ ys) = marks xs @ marks ys"
  by (induction xs rule: marks.induct) simp_all

lemma printErrors_loop_marks:
  "marks (console (printErrors_loop ds r)) = marks (console r)"
  by (induction ds arbitrary: r) (simp_all add: console_error_def Let_def marks_append)

lemma flushDots_marks: "marks (console (flushDots d)) = marks (console d)"
  by (simp add: flushDots_step marks_append)

lemma writeDotChar_marks: "marks (console (writeDotChar d c)) = marks (console d) @ c"
  by (simp add: writeDotChar_step marks_append)

lemma writeDotChar_dots:
  "dotsOnCurrentLine (writeDotChar d c) =
     (if 80 \<le> Suc (dotsOnCurrentLine d) then 0 else Suc (dotsOnCurrentLine d))"
  by (simp add: writeDotChar_step)

lemma same_marks_error:
  assumes "same_marks a b" and "k \<in> set error_kinds"
  shows "rel_sum (=) same_marks (on TstycheDotReporter_handlers a (k, p))
           (on TstycheDotReporter_handlers b (k, p))"
  using assms
  by (cases "diagnostics p")
     (simp_all add: dot_on_error same_marks_def printErrors_loop_fields printErrors_loop_dots
        printErrors_loop_marks flushDots_fields flushDots_marks)

lemma same_marks_lifecycle:
  assumes "same_marks a b" and "k \<in> set lifecycle_kinds"
  shows "rel_sum (=) same_marks (on TstycheDotReporter_handlers a (k, p))
           (on TstycheDotReporter_handlers b (k, p))"
  using assms(2)
proof (rule lifecycle_cases)
  show "rel_sum (=) same_marks (on TstycheDotReporter_handlers a (''run:start'', p))
           (on TstycheDotReporter_handlers b (''run:start'', p))"
    using assms(1)
    by (simp add: dot_on_lifecycle same_marks_def dot_onRunStart_def base_onRunStart_def)
  show "rel_sum (=) same_marks (on TstycheDotReporter_handlers a (''project:uses'', p))
           (on TstycheDotReporter_handlers b (''project:uses'', p))"
    using assms(1)
    by (simp add: dot_project_uses same_marks_def flushDots_fields flushDots_marks
        marks_append version_header_def)
  show "rel_sum (=) same_marks (on TstycheDotReporter_handlers a (''file:start'', p))
           (on TstycheDotReporter_handlers b (''file:start'', p))"
    using assms(1) by (simp add: dot_on_lifecycle)
  show "rel_sum (=) same_marks (on TstycheDotReporter_handlers a (''describe:start'', p))
           (on TstycheDotReporter_handlers b (''describe:start'', p))"
    using assms(1) by (simp add: dot_on_lifecycle)
  show "rel_sum (=) same_marks (on TstycheDotReporter_handlers a (''describe:end'', p))
           (on TstycheDotReporter_handlers b (''describe:end'', p))"
    using assms(1) by (simp add: dot_on_lifecycle)
  show "rel_sum (=) same_marks (on TstycheDotReporter_handlers a (''test:pass'', p))
           (on TstycheDotReporter_handlers b (''test:pass'', p))"
    using assms(1)
    by (simp add: dot_on_lifecycle same_marks_def writeDotChar_fields writeDotChar_marks
        writeDotChar_dots)
  show "rel_sum (=) same_marks (on TstycheDotReporter_handlers a (''test:fail'', p))
           (on TstycheDotReporter_handlers b (''test:fail'', p))"
    using assms(1)
    by (simp add: dot_on_lifecycle same_marks_def writeDotChar_fields writeDotChar_marks
        writeDotChar_dots)
  show "rel_sum (=) same_marks (on TstycheDotReporter_handlers a (''run:end'', p))
           (on TstycheDotReporter_handlers b (''run:end'', p))"
    using assms(1)
    by (simp add: dot_on_lifecycle same_marks_def dot_onRunEnd_def console_log_def
        flushDots_fields flushDots_marks marks_append)
qed

lemma same_marks_on:
  assumes "same_marks a b"
  shows "rel_sum (=) same_marks (on TstycheDotReporter_handlers a ev)
           (on TstycheDotReporter_handlers b ev)"
proof (cases ev)
  case (Pair k p)
  show ?thesis
  proof (cases "k \<in> set known_kinds")
    case False
    then show ?thesis by (simp add: Pair on_unknown_kind)
  next
    case True
    then consider "k \<in> set error_kinds" | "k \<in> set lifecycle_kinds"
      | "k \<in> set non_implemented_kinds"
      by (auto simp add: known_kinds_def)
    then show ?thesis
    proof cases
      case 1
      then show ?thesis unfolding Pair using assms by (simp add: same_marks_error)
    next
      case 2
      then show ?thesis unfolding Pair using assms by (simp add: same_marks_lifecycle)
    next
      case 3
      then show ?thesis unfolding Pair using assms by (simp add: dot_on_non_implemented)
    qed
  qed
qed

lemma same_marks_dispatch_all:
  "same_marks a b \<Longrightarrow>
   rel_sum (=) same_marks (dispatch_all TstycheDotReporter_handlers a evs)
     (dispatch_all TstycheDotReporter_handlers b evs)"
proof (induction evs arbitrary: a b)
  case Nil
  then show ?case by simp
next
  case (Cons e es)
  have r: "rel_sum (=) same_marks (on TstycheDotReporter_handlers a e)
      (on TstycheDotReporter_handlers b e)"
    by (rule same_marks_on [OF Cons.prems])
  show ?case
    using r Cons.IH by (auto elim!: rel_sum.cases)
qed

text \<open>
  C10: the dot reporter writes the character \<^verbatim>\<open>.\<close> for every \<^verbatim>\<open>test:pass\<close> and
  the character \<^verbatim>\<open>F\<close> for every \<^verbatim>\<open>test:fail\<close>, whatever the rendering primitive
  is. Two runs over the same events from states that differ only in the rendering primitive
  (markdown or CLI mode, any symbols, any colorizer) throw the same exception or both
  return, with equal marks and equal column counts.
\<close>

theorem dot_marks_mode_independent:
  "(\<exists>d'. on TstycheDotReporter_handlers d (''test:pass'', p) = Inr d'
        \<and> marks (console d') = marks (console d) @ ''.'')
   \<and> (\<exists>d'. on TstycheDotReporter_handlers d (''test:fail'', p) = Inr d'
        \<and> marks (console d') = marks (console d) @ ''F'')
   \<and> (dispatch_all TstycheDotReporter_handlers (d\<lparr>format := f1\<rparr>) evs = Inr d1 \<longrightarrow>
        (\<exists>d2. dispatch_all TstycheDotReporter_handlers (d\<lparr>format := f2\<rparr>) evs = Inr d2
           \<and> marks (console d2) = marks (console d1)
           \<and> dotsOnCurrentLine d2 = dotsOnCurrentLine d1))
   \<and> (dispatch_all TstycheDotReporter_handlers (d\<lparr>format := f1\<rparr>) evs = Inl e \<longrightarrow>
        dispatch_all TstycheDotReporter_handlers (d\<lparr>format := f2\<rparr>) evs = Inl e)"
proof (intro conjI impI)
  show "\<exists>d'. on TstycheDotReporter_handlers d (''test:pass'', p) = Inr d'
        \<and> marks (console d') = marks (console d) @ ''.''"
    by (simp add: dot_on_lifecycle writeDotChar_marks)
  show "\<exists>d'. on TstycheDotReporter_handlers d (''test:fail'', p) = Inr d'
        \<and> marks (console d') = marks (console d) @ ''F''"
    by (simp add: dot_on_lifecycle writeDotChar_marks)
next
  have s: "same_marks (d\<lparr>format := f1\<rparr>) (d\<lparr>format := f2\<rparr>)"
    by (simp add: same_marks_def)
  note r = same_marks_dispatch_all [OF s, of evs]
  {
    assume "dispatch_all TstycheDotReporter_handlers (d\<lparr>format := f1\<rparr>) evs = Inr d1"
    with r show "\<exists>d2. dispatch_all TstycheDotReporter_handlers (d\<lparr>format := f2\<rparr>) evs = Inr d2
           \<and> marks (console d2) = marks (console d1)
           \<and> dotsOnCurrentLine d2 = dotsOnCurrentLine d1"
      by (cases rule: rel_sum.cases) (auto simp add: same_marks_def)
  }
  {
    assume "dispatch_all TstycheDotReporter_handlers (d\<lparr>format := f1\<rparr>) evs = Inl e"
    with r show "dispatch_all TstycheDotReporter_handlers (d\<lparr>format := f2\<rparr>) evs = Inl e"
      by (cases rule: rel_sum.cases) auto
  }
qed

theorem dot_marks_mode_independent_witness:
  "dispatch_all TstycheDotReporter_handlers
      ((new_TstycheDotReporter markdown_format)\<lparr>format := markdown_format\<rparr>)
      [(''run:start'', empty_payload), project_uses ''5.4'', test_event ''test:pass'' ''a'',
       test_event ''test:fail'' ''b'']
     = Inr \<lparr>format = markdown_format, currentCompilerVersion = Some ''5.4'',
            lastShownCompilerVersion = Some ''5.4'',
            console = [ConsoleLog ''\<newline># uses TypeScript 5.4 with ./tsconfig.json\<newline>'',
                       StdoutWrite ''.'', StdoutWrite ''F''],
            dotsOnCurrentLine = 2\<rparr>
   \<and> (\<exists>d2. dispatch_all TstycheDotReporter_handlers
          ((new_TstycheDotReporter markdown_format)\<lparr>format := cli_format\<rparr>)
          [(''run:start'', empty_payload), project_uses ''5.4'', test_event ''test:pass'' ''a'',
           test_event ''test:fail'' ''b''] = Inr d2
        \<and> marks (console d2) = ''.F'' \<and> dotsOnCurrentLine d2 = 2)"
proof -
  define evs where "evs =
      [(''run:start'', empty_payload), project_uses ''5.4'', test_event ''test:pass'' ''a'',
       test_event ''test:fail'' ''b'']"
  define D1 where "D1 =
      \<lparr>format = markdown_format, currentCompilerVersion = Some ''5.4'',
       lastShownCompilerVersion = Some ''5.4'',
       console = [ConsoleLog ''\<newline># uses TypeScript 5.4 with ./tsconfig.json\<newline>'',
                  StdoutWrite ''.'', StdoutWrite ''F''],
       dotsOnCurrentLine = 2\<rparr>"
  have h: "dispatch_all TstycheDotReporter_handlers
      ((new_TstycheDotReporter markdown_format)\<lparr>format := markdown_format\<rparr>) evs = Inr D1"
    unfolding evs_def D1_def
    by (simp add: project_uses_def test_event_def empty_payload_def dot_on_lifecycle(1,6,7)
        dot_project_uses dot_onRunStart_def base_onRunStart_def writeDotChar_step
        flushDots_step new_TstycheDotReporter_def version_header_def markdown_format_def)
  have m: "marks (console D1) = ''.F''" "dotsOnCurrentLine D1 = 2"
    by (simp_all add: D1_def)
  have ex: "\<exists>d2. dispatch_all TstycheDotReporter_handlers
          ((new_TstycheDotReporter markdown_format)\<lparr>format := cli_format\<rparr>) evs = Inr d2
        \<and> marks (console d2) = marks (console D1)
        \<and> dotsOnCurrentLine d2 = dotsOnCurrentLine D1"
    using dot_marks_mode_independent [of "new_TstycheDotReporter markdown_format" _
        markdown_format evs D1 cli_format] h
    by blast
  show ?thesis
    using h ex unfolding evs_def [symmetric] D1_def [symmetric] by (simp add: m)
qed

section \<open>Out-of-band output of the dot reporter\<close>

lemma open_line_Nil: "open_line [] = []"
  by (simp add: open_line_def)

lemma open_line_newline: "open_line (s @ ''\<newline>'') = []"
  by (simp add: open_line_def)

lemma open_line_last: "s \<noteq> [] \<Longrightarrow> last s = CHR 0x0A \<Longrightarrow> open_line s = []"
  by (cases s rule: rev_cases) (simp_all add: open_line_def)

lemma open_line_snoc: "c \<noteq> CHR 0x0A \<Longrightarrow> open_line (s @ [c]) = open_line s @ [c]"
  by (simp add: open_line_def)

lemma oob_fresh_append:
  "oob_fresh pre (xs @ ys) = (oob_fresh pre xs \<and> oob_fresh (pre @ stdout_text xs) ys)"
  by (induction pre xs rule: oob_fresh.induct) simp_all

lemma printErrors_loop_console:
  "\<exists>es. console (printErrors_loop ds r) = console r @ map ConsoleError es"
proof (induction ds arbitrary: r)
  case Nil
  have "console r = console r @ map ConsoleError []" by simp
  then show ?case unfolding printErrors_loop.simps by (rule exI)
next
  case (Cons d ds)
  define r1 where "r1 = console_error
      (case chalk (format r) of
         Some c \<Rightarrow> red c (''Error: '' @ formatDiagnostic d)
       | None \<Rightarrow> ''Error: '' @ formatDiagnostic d) r"
  obtain es where es: "console (printErrors_loop ds r1) = console r1 @ map ConsoleError es"
    using Cons.IH [of r1] by blast
  have c1: "console r1 = console r @
      [ConsoleError (case chalk (format r) of
         Some c \<Rightarrow> red c (''Error: '' @ formatDiagnostic d)
       | None \<Rightarrow> ''Error: '' @ formatDiagnostic d)]"
    by (simp add: r1_def console_error_def)
  have "printErrors_loop (d # ds) r = printErrors_loop ds r1"
    unfolding r1_def printErrors_loop.simps Let_def by (rule refl)
  then have "console (printErrors_loop (d # ds) r) = console r @
      map ConsoleError ((case chalk (format r) of
         Some c \<Rightarrow> red c (''Error: '' @ formatDiagnostic d)
       | None \<Rightarrow> ''Error: '' @ formatDiagnostic d) # es)"
    by (simp add: es c1)
  then show ?case by (rule exI)
qed

lemma stdout_text_errors: "stdout_text (map ConsoleError es) = []"
  by (induction es) simp_all

lemma oob_fresh_errors: "open_line pre = [] \<Longrightarrow> oob_fresh pre (map ConsoleError es)"
  by (induction es) simp_all

text \<open>
  The two facts that every step keeps: the count agrees with the pending line, and all
  out-of-band output so far started on a fresh line.
\<close>

lemma flushDots_closes:
  assumes "line_in_sync d" and "oob_fresh [] (console d)"
  shows "open_line (stdout_text (console (flushDots d))) = []"
    and "oob_fresh [] (console (flushDots d))"
    and "line_in_sync (flushDots d)"
  using assms
  by (auto simp add: flushDots_step line_in_sync_def stdout_text_append oob_fresh_append
      open_line_newline)

lemma dot_step_error:
  assumes "line_in_sync d" and "oob_fresh [] (console d)" and "k \<in> set error_kinds"
    and "on TstycheDotReporter_handlers d (k, p) = Inr d'"
  shows "line_in_sync d' \<and> oob_fresh [] (console d')"
proof -
  from assms(3,4) obtain ds where d': "d' = printErrors_loop ds (flushDots d)"
    by (auto simp add: dot_on_error split: option.splits)
  obtain es where es: "console d' = console (flushDots d) @ map ConsoleError es"
    unfolding d' using printErrors_loop_console by blast
  note f = flushDots_closes [OF assms(1,2)]
  have "dotsOnCurrentLine d' = 0"
    by (simp add: d' printErrors_loop_dots flushDots_fields)
  then show ?thesis
    using f by (simp add: line_in_sync_def es stdout_text_append stdout_text_errors
        oob_fresh_append oob_fresh_errors)
qed

lemma dot_step_project_uses:
  assumes "line_in_sync d" and "oob_fresh [] (console d)"
    and "on TstycheDotReporter_handlers d (''project:uses'', p) = Inr d'"
  shows "line_in_sync d' \<and> oob_fresh [] (console d')"
proof (cases "compilerVersion p \<noteq> lastShownCompilerVersion d")
  case True
  note f = flushDots_closes [OF assms(1,2)]
  from True assms(3) have d': "d' = (flushDots d)\<lparr>currentCompilerVersion := compilerVersion p,
                 lastShownCompilerVersion := compilerVersion p,
                 console := console (flushDots d) @
                            [version_header (format d) (compilerVersion p)]\<rparr>"
    by (simp add: dot_project_uses)
  show ?thesis
    using f by (simp add: d' line_in_sync_def version_header_def stdout_text_append
        oob_fresh_append open_line_last flushDots_fields)
next
  case False
  with assms(3) have "d' = d\<lparr>currentCompilerVersion := compilerVersion p\<rparr>"
    by (simp add: dot_project_uses)
  with assms(1,2) show ?thesis by (simp add: line_in_sync_def)
qed

lemma dot_step_write:
  assumes "line_in_sync d" and "oob_fresh [] (console d)" and "c \<noteq> CHR 0x0A"
  shows "line_in_sync (writeDotChar d [c]) \<and> oob_fresh [] (console (writeDotChar d [c]))"
  using assms
  by (simp add: writeDotChar_step line_in_sync_def stdout_text_append oob_fresh_append
      open_line_snoc open_line_last)

lemma dot_step_run_end:
  assumes "line_in_sync d" and "oob_fresh [] (console d)"
  shows "line_in_sync (dot_onRunEnd d p) \<and> oob_fresh [] (console (dot_onRunEnd d p))"
  using flushDots_closes [OF assms]
  by (simp add: dot_onRunEnd_def console_log_def line_in_sync_def stdout_text_append
      oob_fresh_append open_line_last flushDots_fields)

lemma dot_step_lifecycle:
  assumes "line_in_sync d" and "oob_fresh [] (console d)" and "k \<in> set lifecycle_kinds"
    and "k = ''run:start'' \<longrightarrow> dotsOnCurrentLine d = 0"
    and "on TstycheDotReporter_handlers d (k, p) = Inr d'"
  shows "line_in_sync d' \<and> oob_fresh [] (console d')"
proof -
  from assms(3)
  have "(k = ''run:start'' \<longrightarrow> dotsOnCurrentLine d = 0) \<longrightarrow>
        on TstycheDotReporter_handlers d (k, p) = Inr d' \<longrightarrow>
        line_in_sync d' \<and> oob_fresh [] (console d')"
  proof (rule lifecycle_cases)
    show "(''run:start'' = ''run:start'' \<longrightarrow> dotsOnCurrentLine d = 0) \<longrightarrow>
        on TstycheDotReporter_handlers d (''run:start'', p) = Inr d' \<longrightarrow>
        line_in_sync d' \<and> oob_fresh [] (console d')"
      using assms(1,2)
      by (auto simp add: dot_on_lifecycle dot_onRunStart_def base_onRunStart_def
          line_in_sync_def)
    show "(''project:uses'' = ''run:start'' \<longrightarrow> dotsOnCurrentLine d = 0) \<longrightarrow>
        on TstycheDotReporter_handlers d (''project:uses'', p) = Inr d' \<longrightarrow>
        line_in_sync d' \<and> oob_fresh [] (console d')"
      using dot_step_project_uses [OF assms(1,2)] by blast
    show "(''file:start'' = ''run:start'' \<longrightarrow> dotsOnCurrentLine d = 0) \<longrightarrow>
        on TstycheDotReporter_handlers d (''file:start'', p) = Inr d' \<longrightarrow>
        line_in_sync d' \<and> oob_fresh [] (console d')"
      using assms(1,2) by (auto simp add: dot_on_lifecycle)
    show "(''describe:start'' = ''run:start'' \<longrightarrow> dotsOnCurrentLine d = 0) \<longrightarrow>
        on TstycheDotReporter_handlers d (''describe:start'', p) = Inr d' \<longrightarrow>
        line_in_sync d' \<and> oob_fresh [] (console d')"
      using assms(1,2) by (auto simp add: dot_on_lifecycle)
    show "(''describe:end'' = ''run:start'' \<longrightarrow> dotsOnCurrentLine d = 0) \<longrightarrow>
        on TstycheDotReporter_handlers d (''describe:end'', p) = Inr d' \<longrightarrow>
        line_in_sync d' \<and> oob_fresh [] (console d')"
      using assms(1,2) by (auto simp add: dot_on_lifecycle)
    show "(''test:pass'' = ''run:start'' \<longrightarrow> dotsOnCurrentLine d = 0) \<longrightarrow>
        on TstycheDotReporter_handlers d (''test:pass'', p) = Inr d' \<longrightarrow>
        line_in_sync d' \<and> oob_fresh [] (console d')"
      using dot_step_write [OF assms(1,2), of "CHR ''.''"]
      by (auto simp add: dot_on_lifecycle)
    show "(''test:fail'' = ''run:start'' \<longrightarrow> dotsOnCurrentLine d = 0) \<longrightarrow>
        on TstycheDotReporter_handlers d (''test:fail'', p) = Inr d' \<longrightarrow>
        line_in_sync d' \<and> oob_fresh [] (console d')"
      using dot_step_write [OF assms(1,2), of "CHR ''F''"]
      by (auto simp add: dot_on_lifecycle)
    show "(''run:end'' = ''run:start'' \<longrightarrow> dotsOnCurrentLine d = 0) \<longrightarrow>
        on TstycheDotReporter_handlers d (''run:end'', p) = Inr d' \<longrightarrow>
        line_in_sync d' \<and> oob_fresh [] (console d')"
      using dot_step_run_end [OF assms(1,2), of p]
      by (auto simp add: dot_on_lifecycle)
  qed
  with assms(4,5) show ?thesis by blast
qed

lemma dot_step:
  assumes "line_in_sync d" and "oob_fresh [] (console d)"
    and "fst ev = ''run:start'' \<longrightarrow> dotsOnCurrentLine d = 0"
    and "on TstycheDotReporter_handlers d ev = Inr d'"
  shows "line_in_sync d' \<and> oob_fresh [] (console d')"
proof (cases ev)
  case (Pair k p)
  show ?thesis
  proof (cases "k \<in> set known_kinds")
    case False
    with assms(4) show ?thesis by (simp add: Pair on_unknown_kind)
  next
    case True
    then consider "k \<in> set error_kinds" | "k \<in> set lifecycle_kinds"
      | "k \<in> set non_implemented_kinds"
      by (auto simp add: known_kinds_def)
    then show ?thesis
    proof cases
      case 1
      then show ?thesis
        using dot_step_error [OF assms(1,2), of k p d'] assms(4) by (simp add: Pair)
    next
      case 2
      then show ?thesis
        using dot_step_lifecycle [OF assms(1,2), of k p d'] assms(3,4) by (simp add: Pair)
    next
      case 3
      then show ?thesis
        using assms(1,2,4) by (simp add: Pair dot_on_non_implemented)
    qed
  qed
qed

lemma dot_idle_step:
  assumes "dotsOnCurrentLine d = 0" and "k \<noteq> ''test:pass''" and "k \<noteq> ''test:fail''"
    and "on TstycheDotReporter_handlers d (k, p) = Inr d1"
  shows "dotsOnCurrentLine d1 = 0"
proof (cases "k \<in> set known_kinds")
  case False
  with assms(4) show ?thesis by (simp add: on_unknown_kind)
next
  case True
  then consider "k \<in> set error_kinds" | "k \<in> set lifecycle_kinds"
    | "k \<in> set non_implemented_kinds"
    by (auto simp add: known_kinds_def)
  then show ?thesis
  proof cases
    case 1
    with assms(4) show ?thesis
      by (auto simp add: dot_on_error printErrors_loop_dots flushDots_fields
          split: option.splits)
  next
    case 2
    then have "k \<noteq> ''test:pass'' \<longrightarrow> k \<noteq> ''test:fail'' \<longrightarrow>
        on TstycheDotReporter_handlers d (k, p) = Inr d1 \<longrightarrow> dotsOnCurrentLine d1 = 0"
    proof (rule lifecycle_cases)
      show "''run:start'' \<noteq> ''test:pass'' \<longrightarrow> ''run:start'' \<noteq> ''test:fail'' \<longrightarrow>
          on TstycheDotReporter_handlers d (''run:start'', p) = Inr d1 \<longrightarrow>
          dotsOnCurrentLine d1 = 0"
        by (auto simp add: dot_on_lifecycle dot_onRunStart_def)
      show "''project:uses'' \<noteq> ''test:pass'' \<longrightarrow> ''project:uses'' \<noteq> ''test:fail'' \<longrightarrow>
          on TstycheDotReporter_handlers d (''project:uses'', p) = Inr d1 \<longrightarrow>
          dotsOnCurrentLine d1 = 0"
        using assms(1) by (auto simp add: dot_project_uses flushDots_fields split: if_splits)
      show "''file:start'' \<noteq> ''test:pass'' \<longrightarrow> ''file:start'' \<noteq> ''test:fail'' \<longrightarrow>
          on TstycheDotReporter_handlers d (''file:start'', p) = Inr d1 \<longrightarrow>
          dotsOnCurrentLine d1 = 0"
        using assms(1) by (auto simp add: dot_on_lifecycle)
      show "''describe:start'' \<noteq> ''test:pass'' \<longrightarrow> ''describe:start'' \<noteq> ''test:fail'' \<longrightarrow>
          on TstycheDotReporter_handlers d (''describe:start'', p) = Inr d1 \<longrightarrow>
          dotsOnCurrentLine d1 = 0"
        using assms(1) by (auto simp add: dot_on_lifecycle)
      show "''describe:end'' \<noteq> ''test:pass'' \<longrightarrow> ''describe:end'' \<noteq> ''test:fail'' \<longrightarrow>
          on TstycheDotReporter_handlers d (''describe:end'', p) = Inr d1 \<longrightarrow>
          dotsOnCurrentLine d1 = 0"
        using assms(1) by (auto simp add: dot_on_lifecycle)
      show "''test:pass'' \<noteq> ''test:pass'' \<longrightarrow> ''test:pass'' \<noteq> ''test:fail'' \<longrightarrow>
          on TstycheDotReporter_handlers d (''test:pass'', p) = Inr d1 \<longrightarrow>
          dotsOnCurrentLine d1 = 0"
        by simp
      show "''test:fail'' \<noteq> ''test:pass'' \<longrightarrow> ''test:fail'' \<noteq> ''test:fail'' \<longrightarrow>
          on TstycheDotReporter_handlers d (''test:fail'', p) = Inr d1 \<longrightarrow>
          dotsOnCurrentLine d1 = 0"
        by simp
      show "''run:end'' \<noteq> ''test:pass'' \<longrightarrow> ''run:end'' \<noteq> ''test:fail'' \<longrightarrow>
          on TstycheDotReporter_handlers d (''run:end'', p) = Inr d1 \<longrightarrow>
          dotsOnCurrentLine d1 = 0"
        by (auto simp add: dot_on_lifecycle dot_onRunEnd_def console_log_def flushDots_fields)
    qed
    with assms(2,3,4) show ?thesis by blast
  next
    case 3
    with assms(1,4) show ?thesis by (simp add: dot_on_non_implemented)
  qed
qed

text \<open>
  Inside the run cycle the column count is 0 whenever no run is active; a step keeps this.
\<close>

lemma run_cycle_step:
  assumes "\<not> active \<longrightarrow> dotsOnCurrentLine d = 0"
    and "run_cycle active ((k, p) # es)"
    and "on TstycheDotReporter_handlers d (k, p) = Inr d1"
  shows "\<exists>active1. (\<not> active1 \<longrightarrow> dotsOnCurrentLine d1 = 0) \<and> run_cycle active1 es"
proof (cases "k = ''run:start''")
  case True
  with assms(2) have "run_cycle True es" by simp
  then have "(\<not> True \<longrightarrow> dotsOnCurrentLine d1 = 0) \<and> run_cycle True es" by simp
  then show ?thesis by (rule exI)
next
  case ns: False
  show ?thesis
  proof (cases "k = ''run:end''")
    case True
    with assms(2) have c: "run_cycle False es" by simp
    from True assms(3) have "dotsOnCurrentLine d1 = 0"
      by (auto simp add: dot_on_lifecycle dot_onRunEnd_def console_log_def flushDots_fields)
    with c have "(\<not> False \<longrightarrow> dotsOnCurrentLine d1 = 0) \<and> run_cycle False es" by simp
    then show ?thesis by (rule exI)
  next
    case ne: False
    show ?thesis
    proof (cases "k = ''test:pass'' \<or> k = ''test:fail''")
      case True
      then have "run_cycle active ((k, p) # es) = (active \<and> run_cycle active es)"
      proof
        assume "k = ''test:pass''"
        then show ?thesis by simp
      next
        assume "k = ''test:fail''"
        then show ?thesis by simp
      qed
      with assms(2) have "active \<and> run_cycle active es" by blast
      then have "(\<not> active \<longrightarrow> dotsOnCurrentLine d1 = 0) \<and> run_cycle active es" by blast
      then show ?thesis by (rule exI)
    next
      case False
      with ns ne assms(2) have c: "run_cycle active es" by simp
      from False have m: "k \<noteq> ''test:pass''" "k \<noteq> ''test:fail''" by simp_all
      have "\<not> active \<longrightarrow> dotsOnCurrentLine d1 = 0"
      proof
        assume "\<not> active"
        with assms(1) have "dotsOnCurrentLine d = 0" by simp
        then show "dotsOnCurrentLine d1 = 0" using m assms(3) by (rule dot_idle_step)
      qed
      with c have "(\<not> active \<longrightarrow> dotsOnCurrentLine d1 = 0) \<and> run_cycle active es" by simp
      then show ?thesis by (rule exI)
    qed
  qed
qed

lemma run_cycle_fresh:
  "line_in_sync d \<Longrightarrow> oob_fresh [] (console d) \<Longrightarrow>
   \<not> active \<longrightarrow> dotsOnCurrentLine d = 0 \<Longrightarrow> run_cycle active evs \<Longrightarrow>
   dispatch_all TstycheDotReporter_handlers d evs = Inr d' \<Longrightarrow>
   line_in_sync d' \<and> oob_fresh [] (console d')"
proof (induction evs arbitrary: d active)
  case Nil
  then show ?case by simp
next
  case (Cons e es)
  obtain k p where e: "e = (k, p)" by (cases e)
  show ?case
  proof (cases "on TstycheDotReporter_handlers d e")
    case (Inl err)
    with Cons.prems(5) show ?thesis by simp
  next
    case (Inr d1)
    have s: "fst e = ''run:start'' \<longrightarrow> dotsOnCurrentLine d = 0"
    proof
      assume "fst e = ''run:start''"
      with Cons.prems(4) have "\<not> active" by simp
      with Cons.prems(3) show "dotsOnCurrentLine d = 0" by simp
    qed
    from dot_step [OF Cons.prems(1,2) s Inr]
    have i: "line_in_sync d1" "oob_fresh [] (console d1)" by simp_all
    from run_cycle_step [OF Cons.prems(3), of k p es d1] Cons.prems(4) Inr e
    obtain active1 where a: "\<not> active1 \<longrightarrow> dotsOnCurrentLine d1 = 0" "run_cycle active1 es"
      by blast
    from Cons.prems(5) Inr have "dispatch_all TstycheDotReporter_handlers d1 es = Inr d'"
      by simp
    with Cons.IH [OF i a] show ?thesis by simp
  qed
qed

lemma new_dot_reporter_closed:
  "line_in_sync (new_TstycheDotReporter fmt)"
  "oob_fresh [] (console (new_TstycheDotReporter fmt))"
  "dotsOnCurrentLine (new_TstycheDotReporter fmt) = 0"
  by (simp_all add: line_in_sync_def new_TstycheDotReporter_def open_line_def)

lemma dot_dispatch_all_returns:
  "\<forall>ev \<in> set evs. payload_ok ev \<and> fst ev \<in> set known_kinds \<Longrightarrow>
   \<exists>d'. dispatch_all TstycheDotReporter_handlers d evs = Inr d'"
proof (induction evs arbitrary: d)
  case Nil
  then show ?case by simp
next
  case (Cons e es)
  obtain k p where e: "e = (k, p)" by (cases e)
  from Cons.prems e have "k \<in> set known_kinds" "payload_ok (k, p)" by simp_all
  then obtain d1 where d1: "on TstycheDotReporter_handlers d (k, p) = Inr d1"
    using dot_returns [of k p d] by blast
  from Cons.prems have "\<forall>ev \<in> set es. payload_ok ev \<and> fst ev \<in> set known_kinds" by simp
  from Cons.IH [OF this, of d1] d1 e show ?case by simp
qed

text \<open>
  C5: in the dot reporter the error block and the version header are written in a state
  whose column count is 0, after \<^verbatim>\<open>#flushDots\<close>, whatever the state before the event
  is. For every sequence of events that follows the run cycle, dispatched to a new dot
  reporter with any rendering primitive, every version header and every error text starts
  on a fresh line of standard output, never behind dot characters, and the column count
  agrees with the pending line afterwards; with well-formed payloads and enumerated kinds
  the dispatch of the whole sequence returns. The same holds from every state in which the
  count agrees with the pending line and is 0 while no run is active.
\<close>

theorem out_of_band_output_on_fresh_line:
  "(k \<in> set error_kinds \<and> diagnostics p = Some ds \<longrightarrow>
      on TstycheDotReporter_handlers d (k, p) = Inr (printErrors_loop ds (flushDots d))
      \<and> dotsOnCurrentLine (flushDots d) = 0
      \<and> dotsOnCurrentLine (printErrors_loop ds (flushDots d)) = 0)
   \<and> (compilerVersion p \<noteq> lastShownCompilerVersion d \<longrightarrow>
      on TstycheDotReporter_handlers d (''project:uses'', p) =
        Inr ((printCompilerVersion
               (flushDots (d\<lparr>currentCompilerVersion := compilerVersion p\<rparr>)))
             \<lparr>lastShownCompilerVersion := compilerVersion p\<rparr>)
      \<and> dotsOnCurrentLine (flushDots (d\<lparr>currentCompilerVersion := compilerVersion p\<rparr>)) = 0)
   \<and> (run_cycle False evs
        \<and> dispatch_all TstycheDotReporter_handlers (new_TstycheDotReporter fmt) evs = Inr d' \<longrightarrow>
      oob_fresh [] (console d') \<and> line_in_sync d')
   \<and> (run_cycle False evs
        \<and> (\<forall>ev \<in> set evs. payload_ok ev \<and> fst ev \<in> set known_kinds) \<longrightarrow>
      (\<exists>d1. dispatch_all TstycheDotReporter_handlers (new_TstycheDotReporter fmt) evs = Inr d1
         \<and> oob_fresh [] (console d1) \<and> line_in_sync d1))
   \<and> (line_in_sync d \<and> oob_fresh [] (console d) \<and> (\<not> active \<longrightarrow> dotsOnCurrentLine d = 0)
        \<and> run_cycle active evs
        \<and> dispatch_all TstycheDotReporter_handlers d evs = Inr d' \<longrightarrow>
      oob_fresh [] (console d') \<and> line_in_sync d')"
proof (intro conjI impI)
  assume a: "k \<in> set error_kinds \<and> diagnostics p = Some ds"
  then show "on TstycheDotReporter_handlers d (k, p) = Inr (printErrors_loop ds (flushDots d))"
    by (simp add: dot_on_error)
  show "dotsOnCurrentLine (flushDots d) = 0"
    by (simp add: flushDots_fields)
  show "dotsOnCurrentLine (printErrors_loop ds (flushDots d)) = 0"
    by (simp add: printErrors_loop_dots flushDots_fields)
next
  assume "compilerVersion p \<noteq> lastShownCompilerVersion d"
  then show "on TstycheDotReporter_handlers d (''project:uses'', p) =
        Inr ((printCompilerVersion
               (flushDots (d\<lparr>currentCompilerVersion := compilerVersion p\<rparr>)))
             \<lparr>lastShownCompilerVersion := compilerVersion p\<rparr>)"
    by (simp add: dot_on_lifecycle base_onProjectUses_def dot_beforePrintCompilerVersion_def
        printCompilerVersion_def console_log_def flushDots_step Let_def)
  show "dotsOnCurrentLine (flushDots (d\<lparr>currentCompilerVersion := compilerVersion p\<rparr>)) = 0"
    by (simp add: flushDots_fields)
next
  assume a: "run_cycle False evs
        \<and> dispatch_all TstycheDotReporter_handlers (new_TstycheDotReporter fmt) evs = Inr d'"
  have r: "line_in_sync d' \<and> oob_fresh [] (console d')"
    using run_cycle_fresh [of "new_TstycheDotReporter fmt" False evs d'] a
      new_dot_reporter_closed [of fmt]
    by blast
  from r show "oob_fresh [] (console d')" by (rule conjunct2)
  from r show "line_in_sync d'" by (rule conjunct1)
next
  assume a: "run_cycle False evs
        \<and> (\<forall>ev \<in> set evs. payload_ok ev \<and> fst ev \<in> set known_kinds)"
  then obtain d1 where
    d1: "dispatch_all TstycheDotReporter_handlers (new_TstycheDotReporter fmt) evs = Inr d1"
    using dot_dispatch_all_returns [of evs "new_TstycheDotReporter fmt"] by blast
  have "line_in_sync d1 \<and> oob_fresh [] (console d1)"
    using run_cycle_fresh [of "new_TstycheDotReporter fmt" False evs d1] a d1
      new_dot_reporter_closed [of fmt]
    by blast
  with d1 show "\<exists>d1. dispatch_all TstycheDotReporter_handlers (new_TstycheDotReporter fmt) evs
         = Inr d1 \<and> oob_fresh [] (console d1) \<and> line_in_sync d1"
    by blast
next
  assume a: "line_in_sync d \<and> oob_fresh [] (console d)
        \<and> (\<not> active \<longrightarrow> dotsOnCurrentLine d = 0)
        \<and> run_cycle active evs
        \<and> dispatch_all TstycheDotReporter_handlers d evs = Inr d'"
  have r: "line_in_sync d' \<and> oob_fresh [] (console d')"
    using run_cycle_fresh [of d active evs d'] a by blast
  from r show "oob_fresh [] (console d')" by (rule conjunct2)
  from r show "line_in_sync d'" by (rule conjunct1)
qed

theorem out_of_band_output_on_fresh_line_witness:
  "run_cycle False
       [(''run:start'', empty_payload), project_uses ''5.4'', test_event ''test:pass'' ''a'',
        error_event ''test:error'' [Diagnostic (Scalar ''bad type'') (Some ''E1'') None None],
        test_event ''test:fail'' ''b'', project_uses ''5.8'', (''run:end'', empty_payload)]
   \<and> dispatch_all TstycheDotReporter_handlers (new_TstycheDotReporter cli_format)
       [(''run:start'', empty_payload), project_uses ''5.4'', test_event ''test:pass'' ''a'',
        error_event ''test:error'' [Diagnostic (Scalar ''bad type'') (Some ''E1'') None None],
        test_event ''test:fail'' ''b'', project_uses ''5.8'', (''run:end'', empty_payload)]
     = Inr \<lparr>format = cli_format, currentCompilerVersion = Some ''5.8'',
            lastShownCompilerVersion = Some ''5.8'',
            console =
              [ConsoleLog ''<bold>uses TypeScript 5.4 with ./tsconfig.json</bold>'',
               StdoutWrite ''.'', ConsoleLog '''',
               ConsoleError ''<red>Error: bad type (E1)</red>'',
               StdoutWrite ''F'', ConsoleLog '''',
               ConsoleLog ''<bold>uses TypeScript 5.8 with ./tsconfig.json</bold>'',
               ConsoleLog '''', ConsoleLog ''''],
            dotsOnCurrentLine = 0\<rparr>
   \<and> oob_fresh []
       [ConsoleLog ''<bold>uses TypeScript 5.4 with ./tsconfig.json</bold>'',
        StdoutWrite ''.'', ConsoleLog '''',
        ConsoleError ''<red>Error: bad type (E1)</red>'',
        StdoutWrite ''F'', ConsoleLog '''',
        ConsoleLog ''<bold>uses TypeScript 5.8 with ./tsconfig.json</bold>'',
        ConsoleLog '''', ConsoleLog '''']
   \<and> stdout_text
       [ConsoleLog ''<bold>uses TypeScript 5.4 with ./tsconfig.json</bold>'',
        StdoutWrite ''.'', ConsoleLog '''',
        ConsoleError ''<red>Error: bad type (E1)</red>'',
        StdoutWrite ''F'', ConsoleLog '''',
        ConsoleLog ''<bold>uses TypeScript 5.8 with ./tsconfig.json</bold>'',
        ConsoleLog '''', ConsoleLog '''']
     = ''<bold>uses TypeScript 5.4 with ./tsconfig.json</bold>\<newline>.\<newline>F\<newline><bold>uses TypeScript 5.8 with ./tsconfig.json</bold>\<newline>\<newline>\<newline>''"
proof -
  define evs where "evs =
      [(''run:start'', empty_payload), project_uses ''5.4'', test_event ''test:pass'' ''a'',
        error_event ''test:error'' [Diagnostic (Scalar ''bad type'') (Some ''E1'') None None],
        test_event ''test:fail'' ''b'', project_uses ''5.8'', (''run:end'', empty_payload)]"
  define D where "D =
      \<lparr>format = cli_format, currentCompilerVersion = Some ''5.8'',
            lastShownCompilerVersion = Some ''5.8'',
            console =
              [ConsoleLog ''<bold>uses TypeScript 5.4 with ./tsconfig.json</bold>'',
               StdoutWrite ''.'', ConsoleLog '''',
               ConsoleError ''<red>Error: bad type (E1)</red>'',
               StdoutWrite ''F'', ConsoleLog '''',
               ConsoleLog ''<bold>uses TypeScript 5.8 with ./tsconfig.json</bold>'',
               ConsoleLog '''', ConsoleLog ''''],
            dotsOnCurrentLine = 0\<rparr>"
  have e: "''test:error'' \<in> set error_kinds" by (simp add: error_kinds_def)
  have r: "run_cycle False evs"
    unfolding evs_def
    by (simp add: project_uses_def test_event_def error_event_def)
  have h: "dispatch_all TstycheDotReporter_handlers (new_TstycheDotReporter cli_format) evs
      = Inr D"
    unfolding evs_def D_def
    by (simp add: project_uses_def test_event_def error_event_def empty_payload_def
        dot_on_lifecycle(1,6,7,8) dot_project_uses dot_on_error [OF e] dot_onRunStart_def
        base_onRunStart_def writeDotChar_step flushDots_step new_TstycheDotReporter_def
        dot_onRunEnd_def console_log_def console_error_def version_header_def cli_format_def)
  have c: "oob_fresh [] (console D)"
    using out_of_band_output_on_fresh_line [of _ _ _ _ evs cli_format D] r h
    by blast
  have cd: "console D =
       [ConsoleLog ''<bold>uses TypeScript 5.4 with ./tsconfig.json</bold>'',
        StdoutWrite ''.'', ConsoleLog '''',
        ConsoleError ''<red>Error: bad type (E1)</red>'',
        StdoutWrite ''F'', ConsoleLog '''',
        ConsoleLog ''<bold>uses TypeScript 5.8 with ./tsconfig.json</bold>'',
        ConsoleLog '''', ConsoleLog '''']"
    by (simp add: D_def)
  from c have c': "oob_fresh []
       [ConsoleLog ''<bold>uses TypeScript 5.4 with ./tsconfig.json</bold>'',
        StdoutWrite ''.'', ConsoleLog '''',
        ConsoleError ''<red>Error: bad type (E1)</red>'',
        StdoutWrite ''F'', ConsoleLog '''',
        ConsoleLog ''<bold>uses TypeScript 5.8 with ./tsconfig.json</bold>'',
        ConsoleLog '''', ConsoleLog '''']"
    unfolding cd .
  have t: "stdout_text
       [ConsoleLog ''<bold>uses TypeScript 5.4 with ./tsconfig.json</bold>'',
        StdoutWrite ''.'', ConsoleLog '''',
        ConsoleError ''<red>Error: bad type (E1)</red>'',
        StdoutWrite ''F'', ConsoleLog '''',
        ConsoleLog ''<bold>uses TypeScript 5.8 with ./tsconfig.json</bold>'',
        ConsoleLog '''', ConsoleLog '''']
     = ''<bold>uses TypeScript 5.4 with ./tsconfig.json</bold>\<newline>.\<newline>F\<newline><bold>uses TypeScript 5.8 with ./tsconfig.json</bold>\<newline>\<newline>\<newline>''"
    by simp
  show ?thesis
    using r h c' t unfolding evs_def D_def by (intro conjI)
qed

end
